theory Spec2Isabelle
  imports Complex_Main "HOL-Library.Word" "HOL-Library.Signed_Division"
begin

section \<open>VA images on top of VDPAU: the model of vdpau_image.c\<close>

text \<open>
  The C integers are 32-bit words.  \<open>int\<close> and \<open>unsigned int\<close> share the type
  \<open>32 word\<close>; where the source divides signed values the division is written out
  (\<open>c_sdiv\<close>, truncation towards zero), and signed overflow is read as two's-complement
  wrap-around.
\<close>

unbundle bit_operations_syntax

type_synonym u32 = "32 word"
type_synonym u16 = "16 word"

definition c_sdiv :: "u32 \<Rightarrow> u32 \<Rightarrow> u32" where
  "c_sdiv a b = word_of_int (sint a sdiv sint b)"

subsection \<open>Constants of the VA-API and VDPAU headers\<close>

definition VA_FOURCC :: "char \<Rightarrow> char \<Rightarrow> char \<Rightarrow> char \<Rightarrow> u32" where
  "VA_FOURCC ch0 ch1 ch2 ch3 =
     of_char ch0 OR push_bit 8 (of_char ch1) OR push_bit 16 (of_char ch2) OR
     push_bit 24 (of_char ch3)"

definition FOURCC_NV12 :: u32 where "FOURCC_NV12 = VA_FOURCC CHR ''N'' CHR ''V'' CHR ''1'' CHR ''2''"
definition FOURCC_YV12 :: u32 where "FOURCC_YV12 = VA_FOURCC CHR ''Y'' CHR ''V'' CHR ''1'' CHR ''2''"
definition FOURCC_UYVY :: u32 where "FOURCC_UYVY = VA_FOURCC CHR ''U'' CHR ''Y'' CHR ''V'' CHR ''Y''"
definition FOURCC_YUYV :: u32 where "FOURCC_YUYV = VA_FOURCC CHR ''Y'' CHR ''U'' CHR ''Y'' CHR ''V''"
definition FOURCC_AYUV :: u32 where "FOURCC_AYUV = VA_FOURCC CHR ''A'' CHR ''Y'' CHR ''U'' CHR ''V''"
definition FOURCC_RGBA :: u32 where "FOURCC_RGBA = VA_FOURCC CHR ''R'' CHR ''G'' CHR ''B'' CHR ''A''"

definition VA_LSB_FIRST :: u32 where "VA_LSB_FIRST = 1"
definition VA_MSB_FIRST :: u32 where "VA_MSB_FIRST = 2"

definition VDP_YCBCR_FORMAT_NV12 :: u32 where "VDP_YCBCR_FORMAT_NV12 = 0"
definition VDP_YCBCR_FORMAT_YV12 :: u32 where "VDP_YCBCR_FORMAT_YV12 = 1"
definition VDP_YCBCR_FORMAT_UYVY :: u32 where "VDP_YCBCR_FORMAT_UYVY = 2"
definition VDP_YCBCR_FORMAT_YUYV :: u32 where "VDP_YCBCR_FORMAT_YUYV = 3"
definition VDP_YCBCR_FORMAT_V8U8Y8A8 :: u32 where "VDP_YCBCR_FORMAT_V8U8Y8A8 = 5"
definition VDP_RGBA_FORMAT_B8G8R8A8 :: u32 where "VDP_RGBA_FORMAT_B8G8R8A8 = 0"
definition VDP_RGBA_FORMAT_R8G8B8A8 :: u32 where "VDP_RGBA_FORMAT_R8G8B8A8 = 1"

definition VDP_INVALID_HANDLE :: u32 where "VDP_INVALID_HANDLE = 0xffffffff"
definition VDP_CHROMA_TYPE_420 :: u32 where "VDP_CHROMA_TYPE_420 = 0"

text \<open>The value \<open>(VdpYCbCrFormat)-1\<close>, \<open>(VdpRGBAFormat)-1\<close> of a failed lookup.\<close>

definition NOT_FOUND :: u32 where "NOT_FOUND = - 1"

datatype VAStatus =
    VA_STATUS_SUCCESS
  | VA_STATUS_ERROR_OPERATION_FAILED
  | VA_STATUS_ERROR_ALLOCATION_FAILED
  | VA_STATUS_ERROR_INVALID_DISPLAY
  | VA_STATUS_ERROR_INVALID_CONFIG
  | VA_STATUS_ERROR_INVALID_CONTEXT
  | VA_STATUS_ERROR_INVALID_SURFACE
  | VA_STATUS_ERROR_INVALID_BUFFER
  | VA_STATUS_ERROR_INVALID_IMAGE
  | VA_STATUS_ERROR_INVALID_SUBPICTURE
  | VA_STATUS_ERROR_ATTR_NOT_SUPPORTED
  | VA_STATUS_ERROR_MAX_NUM_EXCEEDED
  | VA_STATUS_ERROR_UNSUPPORTED_PROFILE
  | VA_STATUS_ERROR_UNSUPPORTED_ENTRYPOINT
  | VA_STATUS_ERROR_UNSUPPORTED_RT_FORMAT
  | VA_STATUS_ERROR_UNSUPPORTED_BUFFERTYPE
  | VA_STATUS_ERROR_SURFACE_BUSY
  | VA_STATUS_ERROR_FLAG_NOT_SUPPORTED
  | VA_STATUS_ERROR_INVALID_PARAMETER
  | VA_STATUS_ERROR_RESOLUTION_NOT_SUPPORTED
  | VA_STATUS_ERROR_UNKNOWN

text \<open>The statuses of the family "a handle or an argument is invalid".\<close>

fun is_INVALID_status :: "VAStatus \<Rightarrow> bool" where
  "is_INVALID_status VA_STATUS_ERROR_INVALID_DISPLAY = True"
| "is_INVALID_status VA_STATUS_ERROR_INVALID_CONFIG = True"
| "is_INVALID_status VA_STATUS_ERROR_INVALID_CONTEXT = True"
| "is_INVALID_status VA_STATUS_ERROR_INVALID_SURFACE = True"
| "is_INVALID_status VA_STATUS_ERROR_INVALID_BUFFER = True"
| "is_INVALID_status VA_STATUS_ERROR_INVALID_IMAGE = True"
| "is_INVALID_status VA_STATUS_ERROR_INVALID_SUBPICTURE = True"
| "is_INVALID_status VA_STATUS_ERROR_INVALID_PARAMETER = True"
| "is_INVALID_status _ = False"

text \<open>
  \<open>VdpStatus\<close>: only \<open>VDP_STATUS_OK\<close> and \<open>VDP_STATUS_INVALID_VALUE\<close> are named by
  the source; every other enumerator is \<open>VDP_STATUS_other\<close> with its number.
\<close>

datatype VdpStatus = VDP_STATUS_OK | VDP_STATUS_INVALID_VALUE | VDP_STATUS_other nat

subsection \<open>The format catalog\<close>

datatype VdpImageFormatType =
    VDP_IMAGE_FORMAT_TYPE_YCBCR
  | VDP_IMAGE_FORMAT_TYPE_RGBA
  | VDP_IMAGE_FORMAT_TYPE_INDEXED

record VAImageFormat =
  fourcc :: u32
  byte_order :: u32
  bits_per_pixel :: u32
  depth :: u32
  red_mask :: u32
  green_mask :: u32
  blue_mask :: u32
  alpha_mask :: u32

record vdpau_image_format_map_t =
  type :: VdpImageFormatType
  format :: u32
  va_format :: VAImageFormat

text \<open>The macros \<open>DEF_YUV\<close> and \<open>DEF_RGB\<close>; fields a row leaves out are zero.\<close>

definition DEF_YUV :: "u32 \<Rightarrow> u32 \<Rightarrow> u32 \<Rightarrow> u32 \<Rightarrow> vdpau_image_format_map_t" where
  "DEF_YUV FORMAT FOURCC ENDIAN BPP =
     \<lparr> type = VDP_IMAGE_FORMAT_TYPE_YCBCR, format = FORMAT,
       va_format = \<lparr> fourcc = FOURCC, byte_order = ENDIAN, bits_per_pixel = BPP,
                     depth = 0, red_mask = 0, green_mask = 0, blue_mask = 0,
                     alpha_mask = 0 \<rparr> \<rparr>"

definition DEF_RGB ::
  "u32 \<Rightarrow> u32 \<Rightarrow> u32 \<Rightarrow> u32 \<Rightarrow> u32 \<Rightarrow> u32 \<Rightarrow> u32 \<Rightarrow> u32 \<Rightarrow> u32 \<Rightarrow> vdpau_image_format_map_t" where
  "DEF_RGB FORMAT FOURCC ENDIAN BPP DEPTH R G B A =
     \<lparr> type = VDP_IMAGE_FORMAT_TYPE_RGBA, format = FORMAT,
       va_format = \<lparr> fourcc = FOURCC, byte_order = ENDIAN, bits_per_pixel = BPP,
                     depth = DEPTH, red_mask = R, green_mask = G, blue_mask = B,
                     alpha_mask = A \<rparr> \<rparr>"

text \<open>
  The table \<open>vdpau_image_formats_map\<close>.  The parameter is the build's
  \<open>WORDS_BIGENDIAN\<close>, which selects the byte order of the two RGBA rows.
\<close>

definition vdpau_image_formats_map :: "bool \<Rightarrow> vdpau_image_format_map_t list" where
  "vdpau_image_formats_map WORDS_BIGENDIAN =
     [ DEF_YUV VDP_YCBCR_FORMAT_NV12 FOURCC_NV12 VA_LSB_FIRST 12,
       DEF_YUV VDP_YCBCR_FORMAT_YV12 FOURCC_YV12 VA_LSB_FIRST 12,
       DEF_YUV VDP_YCBCR_FORMAT_UYVY FOURCC_UYVY VA_LSB_FIRST 16,
       DEF_YUV VDP_YCBCR_FORMAT_YUYV FOURCC_YUYV VA_LSB_FIRST 16,
       DEF_YUV VDP_YCBCR_FORMAT_V8U8Y8A8 FOURCC_AYUV VA_LSB_FIRST 32,
       DEF_RGB VDP_RGBA_FORMAT_B8G8R8A8 FOURCC_RGBA
         (if WORDS_BIGENDIAN then VA_MSB_FIRST else VA_LSB_FIRST) 32
         32 0x00ff0000 0x0000ff00 0x000000ff 0xff000000,
       DEF_RGB VDP_RGBA_FORMAT_R8G8B8A8 FOURCC_RGBA
         (if WORDS_BIGENDIAN then VA_MSB_FIRST else VA_LSB_FIRST) 32
         32 0x000000ff 0x0000ff00 0x00ff0000 0xff000000 ]"

text \<open>
  What a call does: it returns a value, or it stops at a failed \<open>ASSERT\<close>, or it
  indexes an array out of range.  \<open>ASSERT\<close> comes from debug.h, which is not among
  the sources; vdpau_image.c is compiled with \<open>DEBUG\<close> set to 1, and an assertion
  whose argument is zero ends the call, as \<open>assert\<close> does.
\<close>

datatype 'a outcome = Returns 'a | AssertionFailed | OutOfBounds

text \<open>
  \<open>get_VdpYCbCrFormat\<close>: the loop over the table, first match on the fourcc; after the
  loop \<open>ASSERT(image_format->fourcc)\<close> and the value \<open>-1\<close>.
\<close>

fun get_VdpYCbCrFormat_loop :: "vdpau_image_format_map_t list \<Rightarrow> VAImageFormat \<Rightarrow> u32 outcome" where
  "get_VdpYCbCrFormat_loop [] image_format =
     (if fourcc image_format \<noteq> 0 then Returns NOT_FOUND else AssertionFailed)"
| "get_VdpYCbCrFormat_loop (m # ms) image_format =
     (if type m \<noteq> VDP_IMAGE_FORMAT_TYPE_YCBCR then get_VdpYCbCrFormat_loop ms image_format
      else if fourcc (va_format m) = fourcc image_format then Returns (format m)
      else get_VdpYCbCrFormat_loop ms image_format)"

definition get_VdpYCbCrFormat :: "bool \<Rightarrow> VAImageFormat \<Rightarrow> u32 outcome" where
  "get_VdpYCbCrFormat be image_format =
     get_VdpYCbCrFormat_loop (vdpau_image_formats_map be) image_format"

text \<open>
  \<open>get_VdpRGBAFormat\<close>: first RGBA row equal in fourcc, byte order and the red, green
  and blue masks; \<open>-1\<close> after the loop.
\<close>

fun get_VdpRGBAFormat_loop :: "vdpau_image_format_map_t list \<Rightarrow> VAImageFormat \<Rightarrow> u32" where
  "get_VdpRGBAFormat_loop [] image_format = NOT_FOUND"
| "get_VdpRGBAFormat_loop (m # ms) image_format =
     (if type m \<noteq> VDP_IMAGE_FORMAT_TYPE_RGBA then get_VdpRGBAFormat_loop ms image_format
      else if fourcc (va_format m) = fourcc image_format \<and>
              byte_order (va_format m) = byte_order image_format \<and>
              red_mask (va_format m) = red_mask image_format \<and>
              green_mask (va_format m) = green_mask image_format \<and>
              blue_mask (va_format m) = blue_mask image_format
           then format m
      else get_VdpRGBAFormat_loop ms image_format)"

definition get_VdpRGBAFormat :: "bool \<Rightarrow> VAImageFormat \<Rightarrow> u32" where
  "get_VdpRGBAFormat be image_format =
     get_VdpRGBAFormat_loop (vdpau_image_formats_map be) image_format"

subsection \<open>Objects, the driver data and the collaborators\<close>

record VAImage =
  image_id :: u32
  img_format :: VAImageFormat
  buf :: u32
  img_width :: u16
  img_height :: u16
  data_size :: u32
  num_planes :: u32
  pitches :: "nat \<Rightarrow> u32"
  offsets :: "nat \<Rightarrow> u32"
  num_palette_entries :: u32
  entry_bytes :: u32

text \<open>
  \<open>pitches\<close> and \<open>offsets\<close> are the arrays of three elements of \<open>VAImage\<close>, read
  and written at the indices 0, 1 and 2 only; \<open>planes3\<close> lists such an array.
\<close>

definition planes3 :: "(nat \<Rightarrow> 'a) \<Rightarrow> 'a list" where
  "planes3 a = [a 0, a 1, a 2]"

record object_image =
  image :: "nat option"
  vdp_rgba_surface :: u32

record object_surface =
  vdp_surface :: u32
  width :: u32
  height :: u32
  va_context :: u32

record object_context =
  vdp_video_mixer :: u32

record object_buffer =
  buffer_data :: nat

record VdpRect =
  x0 :: u32
  y0 :: u32
  x1 :: u32
  y1 :: u32

text \<open>
  The calls into VDPAU this file makes, with the arguments that vary.  The mixer is
  always called with no background surface, the frame picture structure, no past and
  future surfaces, no layers, and one rectangle for source, destination and video
  rectangle.
\<close>

datatype vdp_call =
    VideoSurfaceQueryYCbCrCaps u32 u32 u32
  | OutputSurfaceQueryRGBACaps u32 u32
  | OutputSurfaceCreate u32 u32 u32 u32
  | OutputSurfaceDestroy u32
  | VideoSurfaceGetBitsYCbCr u32 u32 "nat option list" "u32 option list"
  | VideoMixerRender u32 u32 VdpRect u32
  | OutputSurfaceGetBitsNative u32 VdpRect "nat option list" "u32 option list"

text \<open>
  The driver data with the memory the driver reaches: the image heap, the heaps of the
  other objects (looked up only), the caller's \<open>VAImage\<close> structures by address, and the
  calls made so far on surfaces of the accelerator (the two capability queries only read
  the accelerator and are not recorded).
\<close>

record driver_state =
  vdp_device :: u32
  image_heap :: "object_image option list"
  surface_heap :: "u32 \<rightharpoonup> object_surface"
  context_heap :: "u32 \<rightharpoonup> object_context"
  buffer_heap :: "u32 \<rightharpoonup> object_buffer"
  va_images :: "nat \<Rightarrow> VAImage"
  vdp_calls :: "vdp_call list"

text \<open>
  What lies outside vdpau_image.c and is taken as given: the two constants of the build,
  the accelerator (the status of a call and the value it stores through its output
  pointer, if it stores one), the status translation \<open>vdpau_get_VAStatus\<close>, the
  buffer functions \<open>vdpau_CreateBuffer\<close> (status, the id it stores if any, the buffer
  heap afterwards) and \<open>vdpau_DestroyBuffer\<close>, and the contents of an object fresh
  from the heap.
\<close>

record driver_env =
  WORDS_BIGENDIAN :: bool
  VDPAU_MAX_IMAGE_FORMATS :: nat
  vdpau :: "vdp_call \<Rightarrow> VdpStatus \<times> u32 option"
  vdpau_get_VAStatus :: "VdpStatus \<Rightarrow> VAStatus"
  vdpau_CreateBuffer ::
    "(u32 \<rightharpoonup> object_buffer) \<Rightarrow> u32 \<Rightarrow> VAStatus \<times> u32 option \<times> (u32 \<rightharpoonup> object_buffer)"
  vdpau_DestroyBuffer ::
    "(u32 \<rightharpoonup> object_buffer) \<Rightarrow> u32 \<Rightarrow> VAStatus \<times> (u32 \<rightharpoonup> object_buffer)"
  fresh_object_image :: object_image

text \<open>
  Modelled from the spec: the object heap (object_heap.c is not among the sources), "an
  arena of slots indexed by a generated identifier".  Allocation takes the first free
  slot and fails when the arena is exhausted (the identifier is a non-negative
  \<open>int\<close>); a released slot is free again, so that the next allocation returns the
  same identifier.
\<close>

fun first_free :: "'a option list \<Rightarrow> nat option" where
  "first_free [] = None"
| "first_free (None # xs) = Some 0"
| "first_free (Some x # xs) = map_option Suc (first_free xs)"

definition object_heap_allocate :: "'a option list \<Rightarrow> 'a \<Rightarrow> (u32 \<times> 'a option list) option" where
  "object_heap_allocate heap obj =
     (case first_free heap of
        None \<Rightarrow> None
      | Some i \<Rightarrow> if i < 2 ^ 31 then Some (of_nat i, heap[i := Some obj]) else None)"

definition object_heap_lookup :: "'a option list \<Rightarrow> u32 \<Rightarrow> 'a option" where
  "object_heap_lookup heap i = (if unat i < length heap then heap ! unat i else None)"

definition object_heap_free :: "'a option list \<Rightarrow> u32 \<Rightarrow> 'a option list" where
  "object_heap_free heap i = heap[unat i := None]"

definition VDPAU_IMAGE :: "driver_state \<Rightarrow> u32 \<Rightarrow> object_image option" where
  "VDPAU_IMAGE s i = object_heap_lookup (image_heap s) i"

definition VDPAU_SURFACE :: "driver_state \<Rightarrow> u32 \<Rightarrow> object_surface option" where
  "VDPAU_SURFACE s i = surface_heap s i"

definition VDPAU_CONTEXT :: "driver_state \<Rightarrow> u32 \<Rightarrow> object_context option" where
  "VDPAU_CONTEXT s i = context_heap s i"

definition VDPAU_BUFFER :: "driver_state \<Rightarrow> u32 \<Rightarrow> object_buffer option" where
  "VDPAU_BUFFER s i = buffer_heap s i"

text \<open>Assignments through \<open>image\<close> and \<open>obj_image\<close>, and a recorded call.\<close>

definition upd_image :: "driver_state \<Rightarrow> nat \<Rightarrow> (VAImage \<Rightarrow> VAImage) \<Rightarrow> driver_state" where
  "upd_image s p f = s\<lparr>va_images := (va_images s)(p := f (va_images s p))\<rparr>"

definition upd_obj_image ::
  "driver_state \<Rightarrow> u32 \<Rightarrow> (object_image \<Rightarrow> object_image) \<Rightarrow> driver_state" where
  "upd_obj_image s i f =
     s\<lparr>image_heap := (image_heap s)[unat i := map_option f (image_heap s ! unat i)]\<rparr>"

definition record_call :: "driver_state \<Rightarrow> vdp_call \<Rightarrow> driver_state" where
  "record_call s c = s\<lparr>vdp_calls := vdp_calls s @ [c]\<rparr>"

subsection \<open>Format enumeration\<close>

text \<open>
  \<open>is_supported_format\<close>: \<open>is_supported\<close> starts as \<open>VDP_FALSE\<close> and is what the
  query stores, if it stores.
\<close>

definition is_supported_format :: "driver_env \<Rightarrow> driver_state \<Rightarrow> VdpImageFormatType \<Rightarrow> u32 \<Rightarrow> bool" where
  "is_supported_format env s ty fmt =
     (let (vdp_status, out) =
        (case ty of
           VDP_IMAGE_FORMAT_TYPE_YCBCR \<Rightarrow>
             vdpau env (VideoSurfaceQueryYCbCrCaps (vdp_device s) VDP_CHROMA_TYPE_420 fmt)
         | VDP_IMAGE_FORMAT_TYPE_RGBA \<Rightarrow>
             vdpau env (OutputSurfaceQueryRGBACaps (vdp_device s) fmt)
         | VDP_IMAGE_FORMAT_TYPE_INDEXED \<Rightarrow> (VDP_STATUS_INVALID_VALUE, None));
          is_supported = (case out of None \<Rightarrow> 0 | Some v \<Rightarrow> v)
      in vdp_status = VDP_STATUS_OK \<and> is_supported \<noteq> 0)"

text \<open>
  The loop of \<open>vdpau_QueryImageFormats\<close> over the table: \<open>format_list[n++]\<close> for each
  supported row.  The caller's array is a list; a write past its end is out of bounds.
\<close>

fun QueryImageFormats_loop ::
  "driver_env \<Rightarrow> driver_state \<Rightarrow> vdpau_image_format_map_t list \<Rightarrow> VAImageFormat list \<Rightarrow> nat
     \<Rightarrow> (VAImageFormat list \<times> nat) outcome" where
  "QueryImageFormats_loop env s [] format_list n = Returns (format_list, n)"
| "QueryImageFormats_loop env s (f # fs) format_list n =
     (if is_supported_format env s (type f) (format f)
      then (if n < length format_list
            then QueryImageFormats_loop env s fs (format_list[n := va_format f]) (Suc n)
            else OutOfBounds)
      else QueryImageFormats_loop env s fs format_list n)"

text \<open>
  \<open>vdpau_QueryImageFormats\<close>.  \<open>format_list\<close> is \<open>None\<close> for a null pointer and the
  caller's array otherwise; \<open>num_formats\<close> tells whether that pointer is non-null.  The
  result is the status, the array afterwards and the value left in \<open>*num_formats\<close>.
\<close>

definition vdpau_QueryImageFormats ::
  "driver_env \<Rightarrow> driver_state \<Rightarrow> VAImageFormat list option \<Rightarrow> bool
     \<Rightarrow> (VAStatus \<times> VAImageFormat list option \<times> u32 option) outcome" where
  "vdpau_QueryImageFormats env s format_list num_formats =
     (let num0 = (if num_formats then Some 0 else None) in
      case format_list of
        None \<Rightarrow> Returns (VA_STATUS_SUCCESS, None, num0)
      | Some fl \<Rightarrow>
          (case QueryImageFormats_loop env s (vdpau_image_formats_map (WORDS_BIGENDIAN env)) fl 0 of
             Returns (fl', n) \<Rightarrow>
               if n \<le> VDPAU_MAX_IMAGE_FORMATS env
               then Returns (VA_STATUS_SUCCESS, Some fl',
                             if num_formats then Some (of_nat n) else None)
               else AssertionFailed
           | AssertionFailed \<Rightarrow> AssertionFailed
           | OutOfBounds \<Rightarrow> OutOfBounds))"

subsection \<open>Image creation and destruction\<close>

text \<open>
  \<open>vdpau_DestroyImage\<close>.  The companion surface is destroyed when its handle is valid,
  the slot is released, and the status is that of \<open>vdpau_DestroyBuffer\<close>.
\<close>

definition vdpau_DestroyImage :: "driver_env \<Rightarrow> driver_state \<Rightarrow> u32 \<Rightarrow> VAStatus \<times> driver_state" where
  "vdpau_DestroyImage env s image_id' =
     (case VDPAU_IMAGE s image_id' of
        None \<Rightarrow> (VA_STATUS_ERROR_INVALID_IMAGE, s)
      | Some obj_image \<Rightarrow>
          (case image obj_image of
             None \<Rightarrow> (VA_STATUS_ERROR_INVALID_IMAGE, s)
           | Some p \<Rightarrow>
               let s1 = (if vdp_rgba_surface obj_image \<noteq> VDP_INVALID_HANDLE
                         then record_call s (OutputSurfaceDestroy (vdp_rgba_surface obj_image))
                         else s);
                   s2 = s1\<lparr>image_heap := object_heap_free (image_heap s1) image_id'\<rparr>;
                   (va_status, bh) = vdpau_DestroyBuffer env (buffer_heap s2) (buf (va_images s2 p))
               in (va_status, s2\<lparr>buffer_heap := bh\<rparr>)))"

text \<open>The one-plane layout shared by the cases RGBA, UYVY and YUYV of the switch.\<close>

definition packed_layout :: "u32 \<Rightarrow> u32 \<Rightarrow> VAImage \<Rightarrow> VAImage" where
  "packed_layout width' height' img =
     (let img1 = img\<lparr>num_planes := 1,
                     pitches := (pitches img)(0 := width' * 4),
                     offsets := (offsets img)(0 := 0)\<rparr>
      in img1\<lparr>data_size := offsets img1 0 + pitches img1 0 * height'\<rparr>)"

text \<open>
  The switch on \<open>format->fourcc\<close> of \<open>vdpau_CreateImage\<close> with the four sizes computed
  before it.  \<open>Inl\<close> is \<open>goto error\<close>, \<open>Inr\<close> leaves the switch; both carry the
  state reached.
\<close>

definition CreateImage_switch ::
  "driver_env \<Rightarrow> driver_state \<Rightarrow> VAImageFormat \<Rightarrow> u32 \<Rightarrow> u32 \<Rightarrow> nat \<Rightarrow> u32
     \<Rightarrow> driver_state + driver_state" where
  "CreateImage_switch env s fmt width' height' p image_id' =
     (let size' = width' * height';
          width2 = c_sdiv (width' + 1) 2;
          height2 = c_sdiv (height' + 1) 2;
          size2 = width2 * height2
      in
      if fourcc fmt = FOURCC_NV12 then
        Inr (upd_image s p (\<lambda>img. img\<lparr>num_planes := 2,
               pitches := (pitches img)(0 := width', 1 := width'),
               offsets := (offsets img)(0 := 0, 1 := size'),
               data_size := size' + 2 * size2\<rparr>))
      else if fourcc fmt = FOURCC_YV12 then
        Inr (upd_image s p (\<lambda>img. img\<lparr>num_planes := 3,
               pitches := (pitches img)(0 := width', 1 := width2, 2 := width2),
               offsets := (offsets img)(0 := 0, 1 := size' + size2, 2 := size'),
               data_size := size' + 2 * size2\<rparr>))
      else if fourcc fmt = FOURCC_RGBA then
        (let vdp_rgba_format = get_VdpRGBAFormat (WORDS_BIGENDIAN env) fmt in
         if vdp_rgba_format = NOT_FOUND then Inl s
         else
           let c = OutputSurfaceCreate (vdp_device s) vdp_rgba_format width' height';
               (vdp_status, out) = vdpau env c;
               s1 = record_call s c;
               s2 = (case out of
                       None \<Rightarrow> s1
                     | Some h \<Rightarrow> upd_obj_image s1 image_id' (\<lambda>obj. obj\<lparr>vdp_rgba_surface := h\<rparr>))
           in if vdp_status \<noteq> VDP_STATUS_OK then Inl s2
              else Inr (upd_image s2 p (packed_layout width' height')))
      else if fourcc fmt = FOURCC_UYVY \<or> fourcc fmt = FOURCC_YUYV then
        Inr (upd_image s p (packed_layout width' height'))
      else Inl s)"

text \<open>The label \<open>error\<close>: the image is destroyed and \<open>va_status\<close> returned.\<close>

definition CreateImage_error ::
  "driver_env \<Rightarrow> driver_state \<Rightarrow> VAStatus \<Rightarrow> u32 \<Rightarrow> VAStatus \<times> driver_state" where
  "CreateImage_error env s va_status image_id' = (va_status, snd (vdpau_DestroyImage env s image_id'))"

text \<open>
  The end of \<open>vdpau_CreateImage\<close> after the switch: the buffer is created for
  \<open>image->data_size\<close> bytes and the remaining fields of the image are filled in.
\<close>

definition CreateImage_finish ::
  "driver_env \<Rightarrow> driver_state \<Rightarrow> VAImageFormat \<Rightarrow> u32 \<Rightarrow> u32 \<Rightarrow> nat \<Rightarrow> u32
     \<Rightarrow> VAStatus \<times> driver_state" where
  "CreateImage_finish env s fmt width' height' p image_id' =
     (let (va_status, out, bh) =
            vdpau_CreateBuffer env (buffer_heap s) (data_size (va_images s p));
          s1 = s\<lparr>buffer_heap := bh\<rparr>;
          s2 = (case out of
                  None \<Rightarrow> s1
                | Some b \<Rightarrow> upd_image s1 p (\<lambda>img. img\<lparr>buf := b\<rparr>))
      in if va_status \<noteq> VA_STATUS_SUCCESS
         then CreateImage_error env s2 va_status image_id'
         else (VA_STATUS_SUCCESS,
               upd_image
                 (upd_obj_image s2 image_id' (\<lambda>obj. obj\<lparr>image := Some p\<rparr>))
                 p (\<lambda>img. img\<lparr>image_id := image_id', img_format := fmt,
                              img_width := ucast width',
                              img_height := ucast height',
                              num_palette_entries := 0,
                              entry_bytes := 0\<rparr>)))"

text \<open>
  \<open>vdpau_CreateImage\<close>.  \<open>format'\<close> and \<open>image'\<close> are \<open>None\<close> for null pointers;
  \<open>image'\<close> is the address of the caller's \<open>VAImage\<close>.
\<close>

definition vdpau_CreateImage ::
  "driver_env \<Rightarrow> driver_state \<Rightarrow> VAImageFormat option \<Rightarrow> u32 \<Rightarrow> u32 \<Rightarrow> nat option
     \<Rightarrow> VAStatus \<times> driver_state" where
  "vdpau_CreateImage env s format' width' height' image' =
     (case format' of
        None \<Rightarrow> (VA_STATUS_ERROR_INVALID_PARAMETER, s)
      | Some fmt \<Rightarrow>
     (case image' of
        None \<Rightarrow> (VA_STATUS_ERROR_INVALID_IMAGE, s)
      | Some p \<Rightarrow>
          let s0 = upd_image s p (\<lambda>img. img\<lparr>image_id := 0, buf := 0\<rparr>) in
          (case object_heap_allocate (image_heap s0) (fresh_object_image env) of
             None \<Rightarrow> (VA_STATUS_ERROR_ALLOCATION_FAILED, s0)
           | Some (image_id', heap) \<Rightarrow>
               let s1 = upd_image (s0\<lparr>image_heap := heap\<rparr>) p (\<lambda>img. img\<lparr>image_id := image_id'\<rparr>) in
               (case VDPAU_IMAGE s1 image_id' of
                  None \<Rightarrow> (VA_STATUS_ERROR_ALLOCATION_FAILED, s1)
                | Some _ \<Rightarrow>
                    let s2 = upd_obj_image s1 image_id'
                               (\<lambda>obj. obj\<lparr>image := Some p, vdp_rgba_surface := VDP_INVALID_HANDLE\<rparr>)
                    in
                    (case CreateImage_switch env s2 fmt width' height' p image_id' of
                       Inl s3 \<Rightarrow> CreateImage_error env s3 VA_STATUS_ERROR_OPERATION_FAILED image_id'
                     | Inr s3 \<Rightarrow> CreateImage_finish env s3 fmt width' height' p image_id')))))"

subsection \<open>Readback\<close>

text \<open>
  The loop of \<open>vdpau_GetImage\<close> that fills \<open>src\<close> and \<open>src_stride\<close>, two local arrays
  of three elements that start uninitialised (\<open>None\<close>).  \<open>b\<close> is \<open>buffer_data\<close>.
\<close>

function GetImage_loop ::
  "VAImage \<Rightarrow> nat \<Rightarrow> nat \<Rightarrow> nat option list \<times> u32 option list
     \<Rightarrow> (nat option list \<times> u32 option list) outcome" where
  "GetImage_loop img b i (src, src_stride) =
     (if i < unat (num_planes img)
      then (if i < 3
            then GetImage_loop img b (Suc i)
                   (src[i := Some (b + unat (offsets img i))],
                    src_stride[i := Some (pitches img i)])
            else OutOfBounds)
      else Returns (src, src_stride))"
  by pat_completeness auto
termination
  by (relation "measure (\<lambda>(img, b, i, a). 3 - i)") auto

text \<open>The exchange of the planes 1 and 2 for YV12.\<close>

definition GetImage_swap ::
  "VAImage \<Rightarrow> nat \<Rightarrow> nat option list \<times> u32 option list \<Rightarrow> nat option list \<times> u32 option list" where
  "GetImage_swap img b a =
     (if fourcc (img_format img) = FOURCC_YV12
      then ((fst a)[1 := Some (b + unat (offsets img 2)), 2 := Some (b + unat (offsets img 1))],
            (snd a)[1 := Some (pitches img 2), 2 := Some (pitches img 1)])
      else a)"

text \<open>The format lookup of \<open>vdpau_GetImage\<close>, by the class of the image.\<close>

definition GetImage_format :: "driver_env \<Rightarrow> bool \<Rightarrow> VAImage \<Rightarrow> u32 outcome" where
  "GetImage_format env is_yuv_format img =
     (if is_yuv_format then get_VdpYCbCrFormat (WORDS_BIGENDIAN env) (img_format img)
      else Returns (get_VdpRGBAFormat (WORDS_BIGENDIAN env) (img_format img)))"

text \<open>
  The two readback paths after the planes are set up.  The mixer renders the surface
  into the companion surface, whose bits are then read.
\<close>

definition GetImage_yuv ::
  "driver_env \<Rightarrow> driver_state \<Rightarrow> object_surface \<Rightarrow> VAImage \<Rightarrow> nat \<Rightarrow> u32
     \<Rightarrow> nat option list \<times> u32 option list \<Rightarrow> VAStatus \<times> driver_state" where
  "GetImage_yuv env s obj_surface img b ycbcr_format a =
     (let (src, src_stride) = GetImage_swap img b a;
          c = VideoSurfaceGetBitsYCbCr (vdp_surface obj_surface) ycbcr_format src src_stride
      in (vdpau_get_VAStatus env (fst (vdpau env c)), record_call s c))"

definition GetImage_rgba ::
  "driver_env \<Rightarrow> driver_state \<Rightarrow> object_surface \<Rightarrow> object_image \<Rightarrow> u32 \<Rightarrow> u32 \<Rightarrow> u32 \<Rightarrow> u32
     \<Rightarrow> nat option list \<times> u32 option list \<Rightarrow> VAStatus \<times> driver_state" where
  "GetImage_rgba env s obj_surface obj_image x y width' height' a =
     (case VDPAU_CONTEXT s (va_context obj_surface) of
        None \<Rightarrow> (VA_STATUS_ERROR_INVALID_CONTEXT, s)
      | Some obj_context \<Rightarrow>
          let r = \<lparr>x0 = x, y0 = y, x1 = x + width', y1 = y + height'\<rparr>;
              c1 = VideoMixerRender (vdp_video_mixer obj_context) (vdp_surface obj_surface) r
                     (vdp_rgba_surface obj_image);
              s1 = record_call s c1
          in if fst (vdpau env c1) \<noteq> VDP_STATUS_OK
             then (vdpau_get_VAStatus env (fst (vdpau env c1)), s1)
             else
               let c2 = OutputSurfaceGetBitsNative (vdp_rgba_surface obj_image) r (fst a) (snd a)
               in (vdpau_get_VAStatus env (fst (vdpau env c2)), record_call s1 c2))"

text \<open>\<open>vdpau_GetImage\<close>.\<close>

definition vdpau_GetImage ::
  "driver_env \<Rightarrow> driver_state \<Rightarrow> u32 \<Rightarrow> u32 \<Rightarrow> u32 \<Rightarrow> u32 \<Rightarrow> u32 \<Rightarrow> u32
     \<Rightarrow> (VAStatus \<times> driver_state) outcome" where
  "vdpau_GetImage env s surface x y width' height' image_id' =
     (case VDPAU_SURFACE s surface of
        None \<Rightarrow> Returns (VA_STATUS_ERROR_INVALID_SURFACE, s)
      | Some obj_surface \<Rightarrow>
          let is_full_surface = (x = 0 \<and> y = 0 \<and> width obj_surface = width' \<and>
                                 height obj_surface = height')
          in
          if \<not> is_full_surface then Returns (VA_STATUS_ERROR_INVALID_PARAMETER, s)
          else
          (case VDPAU_IMAGE s image_id' of
             None \<Rightarrow> Returns (VA_STATUS_ERROR_INVALID_IMAGE, s)
           | Some obj_image \<Rightarrow>
          (case image obj_image of
             None \<Rightarrow> Returns (VA_STATUS_ERROR_INVALID_IMAGE, s)
           | Some p \<Rightarrow>
          (case VDPAU_BUFFER s (buf (va_images s p)) of
             None \<Rightarrow> Returns (VA_STATUS_ERROR_INVALID_BUFFER, s)
           | Some obj_buffer \<Rightarrow>
               let img = va_images s p;
                   is_yuv_format = (vdp_rgba_surface obj_image = VDP_INVALID_HANDLE)
               in
               (case GetImage_format env is_yuv_format img of
                  AssertionFailed \<Rightarrow> AssertionFailed
                | OutOfBounds \<Rightarrow> OutOfBounds
                | Returns fmt \<Rightarrow>
                    if fmt = NOT_FOUND then Returns (VA_STATUS_ERROR_OPERATION_FAILED, s)
                    else
                    (case GetImage_loop img (buffer_data obj_buffer) 0
                            ([None, None, None], [None, None, None]) of
                       AssertionFailed \<Rightarrow> AssertionFailed
                     | OutOfBounds \<Rightarrow> OutOfBounds
                     | Returns a \<Rightarrow>
                         if is_yuv_format
                         then Returns (GetImage_yuv env s obj_surface img
                                         (buffer_data obj_buffer) fmt a)
                         else Returns (GetImage_rgba env s obj_surface obj_image
                                         x y width' height' a)))))))"

subsection \<open>Notions used by the statements\<close>

text \<open>The tests of the two lookup loops: when a row of the table matches a descriptor.\<close>

definition matches_YCbCr :: "vdpau_image_format_map_t \<Rightarrow> VAImageFormat \<Rightarrow> bool" where
  "matches_YCbCr m image_format \<longleftrightarrow>
     type m = VDP_IMAGE_FORMAT_TYPE_YCBCR \<and> fourcc (va_format m) = fourcc image_format"

definition matches_RGBA :: "vdpau_image_format_map_t \<Rightarrow> VAImageFormat \<Rightarrow> bool" where
  "matches_RGBA m image_format \<longleftrightarrow>
     type m = VDP_IMAGE_FORMAT_TYPE_RGBA \<and>
     fourcc (va_format m) = fourcc image_format \<and>
     byte_order (va_format m) = byte_order image_format \<and>
     red_mask (va_format m) = red_mask image_format \<and>
     green_mask (va_format m) = green_mask image_format \<and>
     blue_mask (va_format m) = blue_mask image_format"

text \<open>A descriptor with the given fourcc and masks, for the examples.\<close>

definition descriptor :: "u32 \<Rightarrow> u32 \<Rightarrow> u32 \<Rightarrow> u32 \<Rightarrow> VAImageFormat" where
  "descriptor f r g b =
     \<lparr> fourcc = f, byte_order = VA_LSB_FIRST, bits_per_pixel = 32, depth = 32,
       red_mask = r, green_mask = g, blue_mask = b, alpha_mask = 0xff000000 \<rparr>"

text \<open>
  An accelerator and an environment for the examples: a little-endian build, every call
  succeeds, every query answers "supported", a created surface gets the handle 1, a
  created buffer the id 7 with its data at address 4096, and destroying a buffer that
  does not exist is an error.  \<open>failing_env\<close> is the same with a buffer allocator
  that fails, and \<open>rejecting_env\<close> the same with an accelerator that refuses every
  call.
\<close>

definition example_image :: VAImage where
  "example_image =
     \<lparr> image_id = 0, img_format = descriptor 0 0 0 0, buf = 0, img_width = 0, img_height = 0,
       data_size = 0, num_planes = 0, pitches = (\<lambda>_. 0), offsets = (\<lambda>_. 0),
       num_palette_entries = 0, entry_bytes = 0 \<rparr>"

definition example_env :: driver_env where
  "example_env =
     \<lparr> WORDS_BIGENDIAN = False,
       VDPAU_MAX_IMAGE_FORMATS = 10,
       vdpau = (\<lambda>c. (VDP_STATUS_OK, Some 1)),
       vdpau_get_VAStatus =
         (\<lambda>st. if st = VDP_STATUS_OK then VA_STATUS_SUCCESS else VA_STATUS_ERROR_UNKNOWN),
       vdpau_CreateBuffer =
         (\<lambda>bh sz. (VA_STATUS_SUCCESS, Some 7, bh(7 \<mapsto> \<lparr>buffer_data = 4096\<rparr>))),
       vdpau_DestroyBuffer =
         (\<lambda>bh b. (if bh b = None then VA_STATUS_ERROR_INVALID_BUFFER else VA_STATUS_SUCCESS,
                    bh(b := None))),
       fresh_object_image = \<lparr>image = None, vdp_rgba_surface = 0\<rparr> \<rparr>"

definition failing_env :: driver_env where
  "failing_env =
     example_env\<lparr>vdpau_CreateBuffer := (\<lambda>bh sz. (VA_STATUS_ERROR_ALLOCATION_FAILED, None, bh))\<rparr>"

definition rejecting_env :: driver_env where
  "rejecting_env = example_env\<lparr>vdpau := (\<lambda>c. (VDP_STATUS_INVALID_VALUE, None))\<rparr>"

text \<open>
  A driver state for the examples: an image heap of two free slots, the 4x4 surface 5
  of the context 3, no buffers, no calls made yet.
\<close>

definition example_state :: driver_state where
  "example_state =
     \<lparr> vdp_device = 1,
       image_heap = [None, None],
       surface_heap = [5 \<mapsto> \<lparr>vdp_surface = 9, width = 4, height = 4, va_context = 3\<rparr>],
       context_heap = [3 \<mapsto> \<lparr>vdp_video_mixer = 11\<rparr>],
       buffer_heap = Map.empty,
       va_images = (\<lambda>_. example_image),
       vdp_calls = [] \<rparr>"

text \<open>
  What the loop of \<open>vdpau_GetImage\<close> leaves in \<open>src[i]\<close> and \<open>src_stride[i]\<close>: the
  plane \<open>i\<close> of the image when the image has such a plane, nothing otherwise.
\<close>

definition loop_src :: "VAImage \<Rightarrow> nat \<Rightarrow> nat \<Rightarrow> nat option" where
  "loop_src img b i =
     (if i < unat (num_planes img) then Some (b + unat (offsets img i)) else None)"

definition loop_stride :: "VAImage \<Rightarrow> nat \<Rightarrow> u32 option" where
  "loop_stride img i = (if i < unat (num_planes img) then Some (pitches img i) else None)"

text \<open>
  States for the examples.  In \<open>yv12_state\<close> the slot 0 holds a 4x4 YV12 image at
  address 0 with the buffer 7; \<open>nv12_state\<close> has a 4x4 NV12 image instead; in
  \<open>orphan_state\<close> the image of slot 0 names a buffer that does not exist.
\<close>

definition yv12_image :: VAImage where
  "yv12_image =
     \<lparr> image_id = 0, img_format = descriptor FOURCC_YV12 0 0 0, buf = 7,
       img_width = 4, img_height = 4, data_size = 24, num_planes = 3,
       pitches = (\<lambda>_. 0)(0 := 4, 1 := 2, 2 := 2),
       offsets = (\<lambda>_. 0)(0 := 0, 1 := 20, 2 := 16),
       num_palette_entries = 0, entry_bytes = 0 \<rparr>"

definition nv12_image :: VAImage where
  "nv12_image =
     \<lparr> image_id = 0, img_format = descriptor FOURCC_NV12 0 0 0, buf = 7,
       img_width = 4, img_height = 4, data_size = 24, num_planes = 2,
       pitches = (\<lambda>_. 0)(0 := 4, 1 := 4),
       offsets = (\<lambda>_. 0)(0 := 0, 1 := 16),
       num_palette_entries = 0, entry_bytes = 0 \<rparr>"

definition image_state :: "VAImage \<Rightarrow> driver_state" where
  "image_state img =
     example_state
       \<lparr> image_heap := [Some \<lparr>image = Some 0, vdp_rgba_surface = VDP_INVALID_HANDLE\<rparr>, None],
         buffer_heap := [7 \<mapsto> \<lparr>buffer_data = 4096\<rparr>],
         va_images := (\<lambda>_. example_image)(0 := img) \<rparr>"

definition yv12_state :: driver_state where
  "yv12_state = image_state yv12_image"

definition nv12_state :: driver_state where
  "nv12_state = image_state nv12_image"

definition orphan_state :: driver_state where
  "orphan_state = (image_state yv12_image)\<lparr>buffer_heap := Map.empty\<rparr>"

text \<open>
  The descriptors of the rows of the table that the accelerator supports, in the order
  of the table.
\<close>

definition supported_formats :: "driver_env \<Rightarrow> driver_state \<Rightarrow> VAImageFormat list" where
  "supported_formats env s =
     map va_format
       (filter (\<lambda>f. is_supported_format env s (type f) (format f))
          (vdpau_image_formats_map (WORDS_BIGENDIAN env)))"

text \<open>
  The state in which the switch of \<open>vdpau_CreateImage\<close> runs when the slot
  \<open>image_id'\<close> has been allocated for the image at \<open>p\<close>: the image carries its id
  and the buffer id 0, and the slot holds an object that points to the image and has
  no companion surface.
\<close>

definition CreateImage_allocated :: "driver_state \<Rightarrow> nat \<Rightarrow> u32 \<Rightarrow> driver_state" where
  "CreateImage_allocated s p image_id' =
     s\<lparr> va_images := (va_images s)(p := (va_images s p)\<lparr>buf := 0, image_id := image_id'\<rparr>),
        image_heap := (image_heap s)
           [unat image_id' := Some \<lparr>image = Some p, vdp_rgba_surface = VDP_INVALID_HANDLE\<rparr>] \<rparr>"

text \<open>The slot \<open>i\<close> of the image heap holds an object whose image is at \<open>p\<close>.\<close>

definition slot_holds :: "driver_state \<Rightarrow> u32 \<Rightarrow> nat \<Rightarrow> bool" where
  "slot_holds s i p \<longleftrightarrow>
     unat i < length (image_heap s) \<and>
     (case image_heap s ! unat i of None \<Rightarrow> False | Some obj \<Rightarrow> image obj = Some p)"

text \<open>The state carried by either exit of the switch.\<close>

definition switch_state :: "driver_state + driver_state \<Rightarrow> driver_state" where
  "switch_state r = (case r of Inl s \<Rightarrow> s | Inr s \<Rightarrow> s)"

text \<open>
  The caller's image as \<open>vdpau_CreateImage\<close> leaves it, and the ceiling of half of
  an \<open>int\<close>.
\<close>

definition created_image ::
  "driver_env \<Rightarrow> driver_state \<Rightarrow> VAImageFormat \<Rightarrow> u32 \<Rightarrow> u32 \<Rightarrow> nat \<Rightarrow> VAImage" where
  "created_image env s fmt width' height' p =
     va_images (snd (vdpau_CreateImage env s (Some fmt) width' height' (Some p))) p"

definition ceil_half :: "u32 \<Rightarrow> int" where
  "ceil_half n = \<lceil>real_of_int (sint n) / 2\<rceil>"

section \<open>The format catalog and its lookups\<close>

lemmas fourcc_defs = FOURCC_NV12_def FOURCC_YV12_def FOURCC_UYVY_def FOURCC_YUYV_def
  FOURCC_AYUV_def FOURCC_RGBA_def VA_FOURCC_def

lemmas vdp_format_defs = VDP_YCBCR_FORMAT_NV12_def VDP_YCBCR_FORMAT_YV12_def
  VDP_YCBCR_FORMAT_UYVY_def VDP_YCBCR_FORMAT_YUYV_def VDP_YCBCR_FORMAT_V8U8Y8A8_def
  VDP_RGBA_FORMAT_B8G8R8A8_def VDP_RGBA_FORMAT_R8G8B8A8_def

lemmas catalog_defs = vdpau_image_formats_map_def DEF_YUV_def DEF_RGB_def

lemma YCbCr_loop_miss:
  "\<forall>m \<in> set ms. \<not> matches_YCbCr m f \<Longrightarrow>
   get_VdpYCbCrFormat_loop ms f = (if fourcc f \<noteq> 0 then Returns NOT_FOUND else AssertionFailed)"
  by (induction ms) (auto simp: matches_YCbCr_def)

lemma RGBA_loop_miss:
  "\<forall>m \<in> set ms. \<not> matches_RGBA m f \<Longrightarrow> get_VdpRGBAFormat_loop ms f = NOT_FOUND"
  by (induction ms) (auto simp: matches_RGBA_def)

lemma catalog_round_trip:
  "\<forall>d \<in> set (vdpau_image_formats_map be).
     (case type d of
        VDP_IMAGE_FORMAT_TYPE_YCBCR \<Rightarrow> get_VdpYCbCrFormat be (va_format d) = Returns (format d)
      | VDP_IMAGE_FORMAT_TYPE_RGBA \<Rightarrow> get_VdpRGBAFormat be (va_format d) = format d
      | VDP_IMAGE_FORMAT_TYPE_INDEXED \<Rightarrow> False)"
  by (simp add: catalog_defs get_VdpYCbCrFormat_def get_VdpRGBAFormat_def fourcc_defs)

lemma RGBA_lookup_eq:
  "get_VdpRGBAFormat be f =
     (if fourcc f = FOURCC_RGBA \<and>
         byte_order f = (if be then VA_MSB_FIRST else VA_LSB_FIRST) \<and>
         green_mask f = 0x0000ff00
      then (if red_mask f = 0x00ff0000 \<and> blue_mask f = 0x000000ff then VDP_RGBA_FORMAT_B8G8R8A8
            else if red_mask f = 0x000000ff \<and> blue_mask f = 0x00ff0000 then VDP_RGBA_FORMAT_R8G8B8A8
            else NOT_FOUND)
      else NOT_FOUND)"
  by (simp add: catalog_defs get_VdpRGBAFormat_def)

lemma NOT_FOUND_nonzero: "NOT_FOUND \<noteq> 0"
  by (simp add: NOT_FOUND_def)

lemma catalog_codes_found: "\<forall>d \<in> set (vdpau_image_formats_map be). format d \<noteq> NOT_FOUND"
  by (simp add: catalog_defs vdp_format_defs NOT_FOUND_def)

text \<open>
  C7, as stated, at the YCbCr lookup: the descriptor with fourcc 0 matches no row of
  the table (the lookup runs through all of it), and the lookup does not yield
  \<open>NOT_FOUND\<close>: its assertion on the fourcc fails.
\<close>

theorem YCbCr_lookup_zero_fourcc_asserts:
  "get_VdpYCbCrFormat False (descriptor 0 0 0 0) = AssertionFailed \<and>
   get_VdpYCbCrFormat False (descriptor 0 0 0 0) \<noteq> Returns NOT_FOUND"
  by (simp add: catalog_defs get_VdpYCbCrFormat_def fourcc_defs descriptor_def)

text \<open>
  C7, amended.  Every row of the table is found again by the lookup of its class under
  its own descriptor, which returns the row's native code (no row is of the indexed
  class).  The RGBA lookup tells the two RGBA rows, which share their fourcc, apart by
  the byte order and the red, green and blue masks, and returns two different codes.
  A descriptor that matches no RGBA row yields \<open>NOT_FOUND\<close> from the RGBA lookup; a
  descriptor that matches no YCbCr row yields \<open>NOT_FOUND\<close> from the YCbCr lookup when
  its fourcc is not zero, and fails the assertion of that lookup when it is zero.
  \<open>NOT_FOUND\<close> is not zero and is the code of no row.
\<close>

theorem format_catalog_lookup:
  "(\<forall>d \<in> set (vdpau_image_formats_map be).
     (case type d of
        VDP_IMAGE_FORMAT_TYPE_YCBCR \<Rightarrow> get_VdpYCbCrFormat be (va_format d) = Returns (format d)
      | VDP_IMAGE_FORMAT_TYPE_RGBA \<Rightarrow> get_VdpRGBAFormat be (va_format d) = format d
      | VDP_IMAGE_FORMAT_TYPE_INDEXED \<Rightarrow> False)) \<and>
   (\<forall>f. get_VdpRGBAFormat be f =
     (if fourcc f = FOURCC_RGBA \<and>
         byte_order f = (if be then VA_MSB_FIRST else VA_LSB_FIRST) \<and>
         green_mask f = 0x0000ff00
      then (if red_mask f = 0x00ff0000 \<and> blue_mask f = 0x000000ff then VDP_RGBA_FORMAT_B8G8R8A8
            else if red_mask f = 0x000000ff \<and> blue_mask f = 0x00ff0000 then VDP_RGBA_FORMAT_R8G8B8A8
            else NOT_FOUND)
      else NOT_FOUND)) \<and>
   VDP_RGBA_FORMAT_B8G8R8A8 \<noteq> VDP_RGBA_FORMAT_R8G8B8A8 \<and>
   (\<forall>f. (\<forall>d \<in> set (vdpau_image_formats_map be). \<not> matches_RGBA d f) \<longrightarrow>
        get_VdpRGBAFormat be f = NOT_FOUND) \<and>
   (\<forall>f. (\<forall>d \<in> set (vdpau_image_formats_map be). \<not> matches_YCbCr d f) \<longrightarrow>
        get_VdpYCbCrFormat be f =
          (if fourcc f \<noteq> 0 then Returns NOT_FOUND else AssertionFailed)) \<and>
   NOT_FOUND \<noteq> 0 \<and>
   (\<forall>d \<in> set (vdpau_image_formats_map be). format d \<noteq> NOT_FOUND)"
proof -
  have "VDP_RGBA_FORMAT_B8G8R8A8 \<noteq> VDP_RGBA_FORMAT_R8G8B8A8"
    by (simp add: vdp_format_defs)
  moreover have "get_VdpRGBAFormat be f = NOT_FOUND"
    if "\<forall>d \<in> set (vdpau_image_formats_map be). \<not> matches_RGBA d f" for f
    using that unfolding get_VdpRGBAFormat_def by (rule RGBA_loop_miss)
  moreover have "get_VdpYCbCrFormat be f =
      (if fourcc f \<noteq> 0 then Returns NOT_FOUND else AssertionFailed)"
    if "\<forall>d \<in> set (vdpau_image_formats_map be). \<not> matches_YCbCr d f" for f
    using that unfolding get_VdpYCbCrFormat_def by (rule YCbCr_loop_miss)
  ultimately show ?thesis
    using catalog_round_trip [of be] RGBA_lookup_eq [of be] NOT_FOUND_nonzero
      catalog_codes_found [of be]
    by blast
qed

text \<open>
  The theorem at the little-endian table: the NV12 row and the row R8G8B8A8 are found
  again, an RGBA descriptor with unknown masks and the fourcc I420 match no row and
  yield \<open>NOT_FOUND\<close>.
\<close>

theorem format_catalog_lookup_witness:
  "DEF_YUV VDP_YCBCR_FORMAT_NV12 FOURCC_NV12 VA_LSB_FIRST 12 \<in> set (vdpau_image_formats_map False) \<and>
   get_VdpYCbCrFormat False (va_format (DEF_YUV VDP_YCBCR_FORMAT_NV12 FOURCC_NV12 VA_LSB_FIRST 12))
     = Returns VDP_YCBCR_FORMAT_NV12 \<and>
   get_VdpRGBAFormat False (descriptor FOURCC_RGBA 0xff 0xff00 0xff0000) = VDP_RGBA_FORMAT_R8G8B8A8 \<and>
   list_all (\<lambda>d. \<not> matches_RGBA d (descriptor FOURCC_RGBA 1 2 3)) (vdpau_image_formats_map False) \<and>
   get_VdpRGBAFormat False (descriptor FOURCC_RGBA 1 2 3) = NOT_FOUND \<and>
   list_all (\<lambda>d. \<not> matches_YCbCr d (descriptor 0x30323449 0 0 0)) (vdpau_image_formats_map False) \<and>
   get_VdpYCbCrFormat False (descriptor 0x30323449 0 0 0) = Returns NOT_FOUND"
proof -
  note inst = format_catalog_lookup [of False]
  have row: "DEF_YUV VDP_YCBCR_FORMAT_NV12 FOURCC_NV12 VA_LSB_FIRST 12
               \<in> set (vdpau_image_formats_map False)"
    by (simp add: vdpau_image_formats_map_def)
  have nv12: "get_VdpYCbCrFormat False
                (va_format (DEF_YUV VDP_YCBCR_FORMAT_NV12 FOURCC_NV12 VA_LSB_FIRST 12))
              = Returns VDP_YCBCR_FORMAT_NV12"
    using inst [THEN conjunct1, THEN bspec, OF row] by (simp add: DEF_YUV_def)
  have rgba: "get_VdpRGBAFormat False (descriptor FOURCC_RGBA 0xff 0xff00 0xff0000)
              = VDP_RGBA_FORMAT_R8G8B8A8"
    using inst [THEN conjunct2, THEN conjunct1, THEN spec,
               of "descriptor FOURCC_RGBA 0xff 0xff00 0xff0000"]
    by (simp add: descriptor_def)
  have no_rgba: "\<forall>d \<in> set (vdpau_image_formats_map False).
                   \<not> matches_RGBA d (descriptor FOURCC_RGBA 1 2 3)"
    by (simp add: catalog_defs matches_RGBA_def descriptor_def)
  have miss_rgba: "get_VdpRGBAFormat False (descriptor FOURCC_RGBA 1 2 3) = NOT_FOUND"
    using inst [THEN conjunct2, THEN conjunct2, THEN conjunct2, THEN conjunct1, THEN spec,
               THEN mp, OF no_rgba] .
  have no_yuv: "\<forall>d \<in> set (vdpau_image_formats_map False).
                  \<not> matches_YCbCr d (descriptor 0x30323449 0 0 0)"
    by (simp add: catalog_defs matches_YCbCr_def descriptor_def fourcc_defs)
  have miss_yuv: "get_VdpYCbCrFormat False (descriptor 0x30323449 0 0 0) = Returns NOT_FOUND"
    using inst [THEN conjunct2, THEN conjunct2, THEN conjunct2, THEN conjunct2, THEN conjunct1,
               THEN spec, THEN mp, OF no_yuv]
    by (simp add: descriptor_def)
  show ?thesis
    using row nv12 rgba no_rgba miss_rgba no_yuv miss_yuv by (simp add: list_all_iff)
qed

section \<open>Readback: the order of the checks\<close>

lemma GetImage_invalid_surface:
  "VDPAU_SURFACE s surface = None \<Longrightarrow>
   vdpau_GetImage env s surface x y width' height' image_id' =
     Returns (VA_STATUS_ERROR_INVALID_SURFACE, s)"
  by (simp add: vdpau_GetImage_def)

lemma GetImage_not_full:
  "VDPAU_SURFACE s surface = Some obj_surface \<Longrightarrow>
   \<not> (x = 0 \<and> y = 0 \<and> width' = width obj_surface \<and> height' = height obj_surface) \<Longrightarrow>
   vdpau_GetImage env s surface x y width' height' image_id' =
     Returns (VA_STATUS_ERROR_INVALID_PARAMETER, s)"
  by (auto simp add: vdpau_GetImage_def)

lemma GetImage_invalid_image:
  "VDPAU_SURFACE s surface = Some obj_surface \<Longrightarrow>
   VDPAU_IMAGE s image_id' = None \<or>
     (\<exists>obj_image. VDPAU_IMAGE s image_id' = Some obj_image \<and> image obj_image = None) \<Longrightarrow>
   vdpau_GetImage env s surface 0 0 (width obj_surface) (height obj_surface) image_id' =
     Returns (VA_STATUS_ERROR_INVALID_IMAGE, s)"
  by (auto simp add: vdpau_GetImage_def)

lemma GetImage_invalid_buffer:
  "VDPAU_SURFACE s surface = Some obj_surface \<Longrightarrow>
   VDPAU_IMAGE s image_id' = Some obj_image \<Longrightarrow> image obj_image = Some p \<Longrightarrow>
   VDPAU_BUFFER s (buf (va_images s p)) = None \<Longrightarrow>
   vdpau_GetImage env s surface 0 0 (width obj_surface) (height obj_surface) image_id' =
     Returns (VA_STATUS_ERROR_INVALID_BUFFER, s)"
  by (auto simp add: vdpau_GetImage_def)

lemmas example_defs = example_state_def example_env_def example_image_def image_state_def
  yv12_state_def nv12_state_def orphan_state_def yv12_image_def nv12_image_def descriptor_def

lemmas lookup_defs = VDPAU_SURFACE_def VDPAU_IMAGE_def VDPAU_BUFFER_def VDPAU_CONTEXT_def
  object_heap_lookup_def

text \<open>
  C6.  When the surface resolves and the rectangle asked for is not the whole surface
  (\<open>x = 0\<close>, \<open>y = 0\<close>, the width and the height of the surface), \<open>vdpau_GetImage\<close>
  returns \<open>VA_STATUS_ERROR_INVALID_PARAMETER\<close> and the state is the one it was called
  in, whatever the image id is.
\<close>

theorem GetImage_partial_rectangle:
  assumes "VDPAU_SURFACE s surface = Some obj_surface"
    and "\<not> (x = 0 \<and> y = 0 \<and> width' = width obj_surface \<and> height' = height obj_surface)"
  shows "vdpau_GetImage env s surface x y width' height' image_id' =
           Returns (VA_STATUS_ERROR_INVALID_PARAMETER, s)"
  using assms by (rule GetImage_not_full)

text \<open>
  The theorem at the 4x4 surface 5 with \<open>x = 1\<close>, once with the id of an image that
  exists and once with an id that resolves to nothing.
\<close>

theorem GetImage_partial_rectangle_witness:
  "VDPAU_SURFACE yv12_state 5 = Some \<lparr>vdp_surface = 9, width = 4, height = 4, va_context = 3\<rparr> \<and>
   vdpau_GetImage example_env yv12_state 5 1 0 4 4 0 =
     Returns (VA_STATUS_ERROR_INVALID_PARAMETER, yv12_state) \<and>
   vdpau_GetImage example_env yv12_state 5 1 0 4 4 77 =
     Returns (VA_STATUS_ERROR_INVALID_PARAMETER, yv12_state)"
proof -
  have surf: "VDPAU_SURFACE yv12_state 5 =
                Some \<lparr>vdp_surface = 9, width = 4, height = 4, va_context = 3\<rparr>"
    by (simp add: lookup_defs example_defs)
  have part: "\<not> ((1::u32) = 0 \<and> (0::u32) = 0 \<and>
                 (4::u32) = width \<lparr>vdp_surface = 9, width = 4, height = 4, va_context = 3\<rparr> \<and>
                 (4::u32) = height \<lparr>vdp_surface = 9, width = 4, height = 4, va_context = 3\<rparr>)"
    by simp
  show ?thesis
    using surf GetImage_partial_rectangle [OF surf part, of example_env 0]
      GetImage_partial_rectangle [OF surf part, of example_env 77]
    by simp
qed

text \<open>
  C10.  \<open>vdpau_GetImage\<close> checks in this order.  A surface id that does not resolve
  gives \<open>VA_STATUS_ERROR_INVALID_SURFACE\<close> whatever the rectangle and the image id are.
  A surface that resolves with a rectangle that is not the whole surface gives
  \<open>VA_STATUS_ERROR_INVALID_PARAMETER\<close> whatever the image id is.  With the whole
  surface asked for, an image id that does not resolve, or whose object has no image,
  gives \<open>VA_STATUS_ERROR_INVALID_IMAGE\<close>; and an image whose buffer id does not resolve
  gives \<open>VA_STATUS_ERROR_INVALID_BUFFER\<close>.  Each of these returns the state unchanged.
\<close>

theorem GetImage_validation_order:
  "(VDPAU_SURFACE s surface = None \<longrightarrow>
      vdpau_GetImage env s surface x y width' height' image_id' =
        Returns (VA_STATUS_ERROR_INVALID_SURFACE, s)) \<and>
   (\<forall>obj_surface. VDPAU_SURFACE s surface = Some obj_surface \<longrightarrow>
      (\<not> (x = 0 \<and> y = 0 \<and> width' = width obj_surface \<and> height' = height obj_surface) \<longrightarrow>
         vdpau_GetImage env s surface x y width' height' image_id' =
           Returns (VA_STATUS_ERROR_INVALID_PARAMETER, s)) \<and>
      (VDPAU_IMAGE s image_id' = None \<longrightarrow>
         vdpau_GetImage env s surface 0 0 (width obj_surface) (height obj_surface) image_id' =
           Returns (VA_STATUS_ERROR_INVALID_IMAGE, s)) \<and>
      (\<forall>obj_image. VDPAU_IMAGE s image_id' = Some obj_image \<longrightarrow>
         (image obj_image = None \<longrightarrow>
            vdpau_GetImage env s surface 0 0 (width obj_surface) (height obj_surface) image_id' =
              Returns (VA_STATUS_ERROR_INVALID_IMAGE, s)) \<and>
         (\<forall>p. image obj_image = Some p \<longrightarrow> VDPAU_BUFFER s (buf (va_images s p)) = None \<longrightarrow>
            vdpau_GetImage env s surface 0 0 (width obj_surface) (height obj_surface) image_id' =
              Returns (VA_STATUS_ERROR_INVALID_BUFFER, s))))"
  using GetImage_invalid_surface [of s surface env x y width' height' image_id']
    GetImage_not_full [of s surface _ x y width' height' env image_id']
    GetImage_invalid_image [of s surface _ image_id' env]
    GetImage_invalid_buffer [of s surface _ image_id' _ _ env]
  by blast

text \<open>
  The theorem at four calls: an unknown surface with \<open>x = 1\<close>; the surface 5 with
  \<open>x = 1\<close> and an unknown image; the whole surface 5 with an unknown image; the whole
  surface 5 with the image 0 of \<open>orphan_state\<close>, whose buffer does not exist.
\<close>

theorem GetImage_validation_order_witness:
  "VDPAU_SURFACE yv12_state 6 = None \<and>
   vdpau_GetImage example_env yv12_state 6 1 0 4 4 0 =
     Returns (VA_STATUS_ERROR_INVALID_SURFACE, yv12_state) \<and>
   VDPAU_SURFACE yv12_state 5 = Some \<lparr>vdp_surface = 9, width = 4, height = 4, va_context = 3\<rparr> \<and>
   VDPAU_IMAGE yv12_state 1 = None \<and>
   vdpau_GetImage example_env yv12_state 5 1 0 4 4 1 =
     Returns (VA_STATUS_ERROR_INVALID_PARAMETER, yv12_state) \<and>
   vdpau_GetImage example_env yv12_state 5 0 0 4 4 1 =
     Returns (VA_STATUS_ERROR_INVALID_IMAGE, yv12_state) \<and>
   VDPAU_IMAGE orphan_state 0 = Some \<lparr>image = Some 0, vdp_rgba_surface = VDP_INVALID_HANDLE\<rparr> \<and>
   VDPAU_BUFFER orphan_state (buf (va_images orphan_state 0)) = None \<and>
   vdpau_GetImage example_env orphan_state 5 0 0 4 4 0 =
     Returns (VA_STATUS_ERROR_INVALID_BUFFER, orphan_state)"
proof -
  have no_surf: "VDPAU_SURFACE yv12_state 6 = None"
    by (simp add: lookup_defs example_defs)
  have surf: "VDPAU_SURFACE yv12_state 5 =
                Some \<lparr>vdp_surface = 9, width = 4, height = 4, va_context = 3\<rparr>"
    by (simp add: lookup_defs example_defs)
  have surf': "VDPAU_SURFACE orphan_state 5 =
                Some \<lparr>vdp_surface = 9, width = 4, height = 4, va_context = 3\<rparr>"
    by (simp add: lookup_defs example_defs)
  have no_img: "VDPAU_IMAGE yv12_state 1 = None"
    by (simp add: lookup_defs example_defs)
  have img: "VDPAU_IMAGE orphan_state 0 =
               Some \<lparr>image = Some 0, vdp_rgba_surface = VDP_INVALID_HANDLE\<rparr>"
    by (simp add: lookup_defs example_defs)
  have no_buf: "VDPAU_BUFFER orphan_state (buf (va_images orphan_state 0)) = None"
    by (simp add: lookup_defs example_defs)
  have 1: "vdpau_GetImage example_env yv12_state 6 1 0 4 4 0 =
             Returns (VA_STATUS_ERROR_INVALID_SURFACE, yv12_state)"
    using GetImage_validation_order [of yv12_state 6 example_env 1 0 4 4 0] no_surf by simp
  have 2: "vdpau_GetImage example_env yv12_state 5 1 0 4 4 1 =
             Returns (VA_STATUS_ERROR_INVALID_PARAMETER, yv12_state)"
    using GetImage_validation_order [of yv12_state 5 example_env 1 0 4 4 1] surf by simp
  have 3: "vdpau_GetImage example_env yv12_state 5 0 0 4 4 1 =
             Returns (VA_STATUS_ERROR_INVALID_IMAGE, yv12_state)"
    using GetImage_validation_order [of yv12_state 5 example_env 0 0 4 4 1] surf no_img by simp
  have 4: "vdpau_GetImage example_env orphan_state 5 0 0 4 4 0 =
             Returns (VA_STATUS_ERROR_INVALID_BUFFER, orphan_state)"
    using GetImage_validation_order [of orphan_state 5 example_env 0 0 4 4 0] surf' img no_buf
    by simp
  show ?thesis
    using no_surf surf no_img img no_buf 1 2 3 4 by simp
qed

section \<open>Readback: the planes passed to the accelerator\<close>

declare GetImage_loop.simps [simp del]

lemma GetImage_loop_in_bounds:
  assumes "unat (num_planes img) \<le> 3"
  shows "GetImage_loop img b 0 ([None, None, None], [None, None, None]) =
         Returns ([loop_src img b 0, loop_src img b 1, loop_src img b 2],
                  [loop_stride img 0, loop_stride img 1, loop_stride img 2])"
proof -
  from assms consider "unat (num_planes img) = 0" | "unat (num_planes img) = 1"
    | "unat (num_planes img) = 2" | "unat (num_planes img) = 3"
    by linarith
  then show ?thesis
    by cases (simp_all add: GetImage_loop.simps [of img b] loop_src_def loop_stride_def
        numeral_2_eq_2 [symmetric])
qed

lemma GetImage_loop_out_of_bounds:
  assumes "3 < unat (num_planes img)"
  shows "GetImage_loop img b 0 a = OutOfBounds"
  using assms by (cases a) (simp add: GetImage_loop.simps [of img b])

lemma GetImage_yuv_path:
  assumes "VDPAU_SURFACE s surface = Some obj_surface"
    and "VDPAU_IMAGE s image_id' = Some obj_image" and "image obj_image = Some p"
    and "VDPAU_BUFFER s (buf (va_images s p)) = Some obj_buffer"
    and "vdp_rgba_surface obj_image = VDP_INVALID_HANDLE"
    and "get_VdpYCbCrFormat (WORDS_BIGENDIAN env) (img_format (va_images s p)) = Returns fmt"
    and "fmt \<noteq> NOT_FOUND"
    and "unat (num_planes (va_images s p)) \<le> 3"
  shows "vdpau_GetImage env s surface 0 0 (width obj_surface) (height obj_surface) image_id' =
         Returns (GetImage_yuv env s obj_surface (va_images s p) (buffer_data obj_buffer) fmt
                    ([loop_src (va_images s p) (buffer_data obj_buffer) 0,
                      loop_src (va_images s p) (buffer_data obj_buffer) 1,
                      loop_src (va_images s p) (buffer_data obj_buffer) 2],
                     [loop_stride (va_images s p) 0, loop_stride (va_images s p) 1,
                      loop_stride (va_images s p) 2]))"
  using assms
  by (simp add: vdpau_GetImage_def GetImage_format_def GetImage_loop_in_bounds Let_def)

lemma GetImage_yuv_call:
  "GetImage_yuv env s obj_surface img b fmt ([s0, s1, s2], [t0, t1, t2]) =
     (let c = VideoSurfaceGetBitsYCbCr (vdp_surface obj_surface) fmt
                (if fourcc (img_format img) = FOURCC_YV12
                 then [s0, Some (b + unat (offsets img 2)), Some (b + unat (offsets img 1))]
                 else [s0, s1, s2])
                (if fourcc (img_format img) = FOURCC_YV12
                 then [t0, Some (pitches img 2), Some (pitches img 1)]
                 else [t0, t1, t2])
      in (vdpau_get_VAStatus env (fst (vdpau env c)), record_call s c))"
  by (simp add: GetImage_yuv_def GetImage_swap_def Let_def)

text \<open>
  C1.  On the YUV path of \<open>vdpau_GetImage\<close> (the surface, the image and its buffer
  resolve, the whole surface is asked for, the image has no companion surface, its
  fourcc is in the table and it has at most three planes) exactly one call is made, the
  read of the YCbCr bits of the surface, and its status is the status returned.  With
  \<open>b\<close> the address of the buffer data: when the fourcc of the image is YV12, the
  pointer and stride of plane 1 are \<open>b + offsets[2]\<close> and \<open>pitches[2]\<close> and those of
  plane 2 are \<open>b + offsets[1]\<close> and \<open>pitches[1]\<close>; for every other fourcc each plane
  \<open>i\<close> of the image gets \<open>b + offsets[i]\<close> and \<open>pitches[i]\<close>, and an index that is
  no plane of the image is left as it was.  Plane 0 is never exchanged.
\<close>

theorem GetImage_yuv_plane_arguments:
  assumes "VDPAU_SURFACE s surface = Some obj_surface"
    and "VDPAU_IMAGE s image_id' = Some obj_image" and "image obj_image = Some p"
    and "img = va_images s p"
    and "VDPAU_BUFFER s (buf img) = Some obj_buffer" and "b = buffer_data obj_buffer"
    and "vdp_rgba_surface obj_image = VDP_INVALID_HANDLE"
    and "get_VdpYCbCrFormat (WORDS_BIGENDIAN env) (img_format img) = Returns fmt"
    and "fmt \<noteq> NOT_FOUND"
    and "unat (num_planes img) \<le> 3"
  shows "vdpau_GetImage env s surface 0 0 (width obj_surface) (height obj_surface) image_id' =
         Returns
           (let c = VideoSurfaceGetBitsYCbCr (vdp_surface obj_surface) fmt
                      (if fourcc (img_format img) = FOURCC_YV12
                       then [loop_src img b 0,
                             Some (b + unat (offsets img 2)),
                             Some (b + unat (offsets img 1))]
                       else [loop_src img b 0, loop_src img b 1, loop_src img b 2])
                      (if fourcc (img_format img) = FOURCC_YV12
                       then [loop_stride img 0, Some (pitches img 2), Some (pitches img 1)]
                       else [loop_stride img 0, loop_stride img 1, loop_stride img 2])
            in (vdpau_get_VAStatus env (fst (vdpau env c)), record_call s c))"
  using assms GetImage_yuv_path [of s surface obj_surface image_id' obj_image p obj_buffer env fmt]
  by (simp add: GetImage_yuv_call)

text \<open>
  The theorem at the 4x4 YV12 image of \<open>yv12_state\<close>, whose planes 1 and 2 are at
  the offsets 20 and 16 of the buffer at 4096: the accelerator is given 4096 + 16 for
  plane 1 and 4096 + 20 for plane 2.  At the NV12 image of \<open>nv12_state\<close> the two
  planes are passed in their own order and the third entry is not set.
\<close>

theorem GetImage_yuv_plane_arguments_witness:
  "VDPAU_SURFACE yv12_state 5 = Some \<lparr>vdp_surface = 9, width = 4, height = 4, va_context = 3\<rparr> \<and>
   VDPAU_IMAGE yv12_state 0 = Some \<lparr>image = Some 0, vdp_rgba_surface = VDP_INVALID_HANDLE\<rparr> \<and>
   VDPAU_BUFFER yv12_state (buf (va_images yv12_state 0)) = Some \<lparr>buffer_data = 4096\<rparr> \<and>
   get_VdpYCbCrFormat False (img_format (va_images yv12_state 0)) = Returns VDP_YCBCR_FORMAT_YV12 \<and>
   VDP_YCBCR_FORMAT_YV12 \<noteq> NOT_FOUND \<and>
   unat (num_planes (va_images yv12_state 0)) \<le> 3 \<and>
   vdpau_GetImage example_env yv12_state 5 0 0 4 4 0 =
     Returns (VA_STATUS_SUCCESS,
              record_call yv12_state
                (VideoSurfaceGetBitsYCbCr 9 VDP_YCBCR_FORMAT_YV12
                   [Some 4096, Some 4112, Some 4116] [Some 4, Some 2, Some 2])) \<and>
   vdpau_GetImage example_env nv12_state 5 0 0 4 4 0 =
     Returns (VA_STATUS_SUCCESS,
              record_call nv12_state
                (VideoSurfaceGetBitsYCbCr 9 VDP_YCBCR_FORMAT_NV12
                   [Some 4096, Some 4112, None] [Some 4, Some 4, None]))"
proof -
  let ?surf = "\<lparr>vdp_surface = 9, width = 4, height = 4, va_context = 3\<rparr>"
  let ?obj = "\<lparr>image = Some 0, vdp_rgba_surface = VDP_INVALID_HANDLE\<rparr>"
  let ?buf = "\<lparr>buffer_data = 4096\<rparr>"
  have surf: "VDPAU_SURFACE yv12_state 5 = Some ?surf"
    and obj: "VDPAU_IMAGE yv12_state 0 = Some ?obj"
    and buf: "VDPAU_BUFFER yv12_state (buf (va_images yv12_state 0)) = Some ?buf"
    by (simp_all add: lookup_defs example_defs)
  have fmt: "get_VdpYCbCrFormat (WORDS_BIGENDIAN example_env)
               (img_format (va_images yv12_state 0)) = Returns VDP_YCBCR_FORMAT_YV12"
    by (simp add: example_defs get_VdpYCbCrFormat_def catalog_defs fourcc_defs)
  have found: "VDP_YCBCR_FORMAT_YV12 \<noteq> NOT_FOUND"
    by (simp add: vdp_format_defs NOT_FOUND_def)
  have planes: "unat (num_planes (va_images yv12_state 0)) \<le> 3"
    by (simp add: example_defs)
  have surf': "VDPAU_SURFACE nv12_state 5 = Some ?surf"
    and obj': "VDPAU_IMAGE nv12_state 0 = Some ?obj"
    and buf': "VDPAU_BUFFER nv12_state (buf (va_images nv12_state 0)) = Some ?buf"
    by (simp_all add: lookup_defs example_defs)
  have fmt': "get_VdpYCbCrFormat (WORDS_BIGENDIAN example_env)
               (img_format (va_images nv12_state 0)) = Returns VDP_YCBCR_FORMAT_NV12"
    by (simp add: example_defs get_VdpYCbCrFormat_def catalog_defs fourcc_defs)
  have found': "VDP_YCBCR_FORMAT_NV12 \<noteq> NOT_FOUND"
    by (simp add: vdp_format_defs NOT_FOUND_def)
  have planes': "unat (num_planes (va_images nv12_state 0)) \<le> 3"
    by (simp add: example_defs)
  have yv12: "vdpau_GetImage example_env yv12_state 5 0 0 4 4 0 =
     Returns (VA_STATUS_SUCCESS,
              record_call yv12_state
                (VideoSurfaceGetBitsYCbCr 9 VDP_YCBCR_FORMAT_YV12
                   [Some 4096, Some 4112, Some 4116] [Some 4, Some 2, Some 2]))"
    using GetImage_yuv_plane_arguments
            [OF surf obj _ refl buf refl _ fmt found planes]
    by (simp add: loop_src_def loop_stride_def VDP_INVALID_HANDLE_def)
       (simp add: example_defs fourcc_defs)
  have nv12: "vdpau_GetImage example_env nv12_state 5 0 0 4 4 0 =
     Returns (VA_STATUS_SUCCESS,
              record_call nv12_state
                (VideoSurfaceGetBitsYCbCr 9 VDP_YCBCR_FORMAT_NV12
                   [Some 4096, Some 4112, None] [Some 4, Some 4, None]))"
    using GetImage_yuv_plane_arguments
            [OF surf' obj' _ refl buf' refl _ fmt' found' planes']
    by (simp add: loop_src_def loop_stride_def VDP_INVALID_HANDLE_def)
       (simp add: example_defs fourcc_defs)
  show ?thesis
    using surf obj buf fmt found planes yv12 nv12 by (simp add: example_env_def)
qed

section \<open>Format enumeration\<close>

lemma QueryImageFormats_loop_fill:
  "n + length (filter (\<lambda>f. is_supported_format env s (type f) (format f)) fs) \<le> length fl \<Longrightarrow>
   QueryImageFormats_loop env s fs fl n =
     Returns (take n fl
                @ map va_format (filter (\<lambda>f. is_supported_format env s (type f) (format f)) fs)
                @ drop (n + length (filter (\<lambda>f. is_supported_format env s (type f) (format f)) fs)) fl,
              n + length (filter (\<lambda>f. is_supported_format env s (type f) (format f)) fs))"
proof (induction fs arbitrary: fl n)
  case Nil
  then show ?case by simp
next
  case (Cons f fs)
  show ?case
  proof (cases "is_supported_format env s (type f) (format f)")
    case True
    with Cons.prems have n: "n < length fl" by simp
    from True Cons.prems
    have "Suc n + length (filter (\<lambda>f. is_supported_format env s (type f) (format f)) fs)
            \<le> length (fl[n := va_format f])"
      by simp
    from Cons.IH [OF this] True n show ?thesis
      by (simp add: take_Suc_conv_app_nth)
  next
    case False
    with Cons.prems Cons.IH [of n fl] show ?thesis by simp
  qed
qed

lemma QueryImageFormats_probe:
  "vdpau_QueryImageFormats env s None num_formats =
     Returns (VA_STATUS_SUCCESS, None, if num_formats then Some 0 else None)"
  by (simp add: vdpau_QueryImageFormats_def)

lemma QueryImageFormats_fill:
  assumes "length (supported_formats env s) \<le> length fl"
    and "length (supported_formats env s) \<le> VDPAU_MAX_IMAGE_FORMATS env"
  shows "vdpau_QueryImageFormats env s (Some fl) num_formats =
     Returns (VA_STATUS_SUCCESS,
              Some (supported_formats env s @ drop (length (supported_formats env s)) fl),
              if num_formats then Some (of_nat (length (supported_formats env s))) else None)"
  using assms
    QueryImageFormats_loop_fill [of 0 env s "vdpau_image_formats_map (WORDS_BIGENDIAN env)" fl]
  by (simp add: vdpau_QueryImageFormats_def supported_formats_def)

lemma example_env_supports_all:
  "supported_formats example_env example_state = map va_format (vdpau_image_formats_map False)"
  by (simp add: supported_formats_def is_supported_format_def example_env_def catalog_defs)

lemma example_max_formats: "VDPAU_MAX_IMAGE_FORMATS example_env = 10"
  by (simp add: example_env_def)

text \<open>
  C2, as stated, at an accelerator that supports every format of the table: the probe
  without an output list reports the count 0, and the fill call that follows, in the
  same state, writes seven entries and reports 7.
\<close>

theorem QueryImageFormats_probe_reports_zero:
  "vdpau_QueryImageFormats example_env example_state None True =
     Returns (VA_STATUS_SUCCESS, None, Some 0) \<and>
   vdpau_QueryImageFormats example_env example_state
       (Some (replicate 7 (descriptor 0 0 0 0))) True =
     Returns (VA_STATUS_SUCCESS, Some (map va_format (vdpau_image_formats_map False)), Some 7) \<and>
   length (map va_format (vdpau_image_formats_map False)) = 7"
proof -
  have len: "length (supported_formats example_env example_state) = 7"
    by (simp add: example_env_supports_all vdpau_image_formats_map_def)
  have "vdpau_QueryImageFormats example_env example_state
          (Some (replicate 7 (descriptor 0 0 0 0))) True =
        Returns (VA_STATUS_SUCCESS, Some (map va_format (vdpau_image_formats_map False)), Some 7)"
    using QueryImageFormats_fill [of example_env example_state
            "replicate 7 (descriptor 0 0 0 0)" True]
    by (simp add: len example_max_formats) (simp add: example_env_supports_all)
  then show ?thesis
    by (simp add: QueryImageFormats_probe vdpau_image_formats_map_def)
qed

text \<open>
  C2, amended.  Without an output list the operation writes nothing and reports the
  count 0, whatever the accelerator supports.  With an output list that has room for
  them (and not more of them than \<open>VDPAU_MAX_IMAGE_FORMATS\<close>), it writes the
  descriptors of the rows the accelerator supports, in the order of the table, at the
  front of the list, leaves the rest of the list alone and reports their number.  So
  the count of a fill call is the number of entries that call writes, and the count
  of the probe is that number only for an accelerator that supports no row.
\<close>

theorem QueryImageFormats_counts:
  "vdpau_QueryImageFormats env s None num_formats =
     Returns (VA_STATUS_SUCCESS, None, if num_formats then Some 0 else None) \<and>
   (length (supported_formats env s) \<le> length fl \<and>
    length (supported_formats env s) \<le> VDPAU_MAX_IMAGE_FORMATS env \<longrightarrow>
    vdpau_QueryImageFormats env s (Some fl) num_formats =
      Returns (VA_STATUS_SUCCESS,
               Some (supported_formats env s @ drop (length (supported_formats env s)) fl),
               if num_formats then Some (of_nat (length (supported_formats env s))) else None))"
  using QueryImageFormats_probe [of env s num_formats]
    QueryImageFormats_fill [of env s fl num_formats]
  by blast

text \<open>
  The theorem at an accelerator that supports all seven rows and a list of ten
  entries: seven are written, three are left, 7 is reported; the probe reports 0.
\<close>

theorem QueryImageFormats_counts_witness:
  "length (supported_formats example_env example_state) \<le> length (replicate 10 (descriptor 0 0 0 0)) \<and>
   length (supported_formats example_env example_state) \<le> VDPAU_MAX_IMAGE_FORMATS example_env \<and>
   vdpau_QueryImageFormats example_env example_state None True =
     Returns (VA_STATUS_SUCCESS, None, Some 0) \<and>
   vdpau_QueryImageFormats example_env example_state
       (Some (replicate 10 (descriptor 0 0 0 0))) True =
     Returns (VA_STATUS_SUCCESS,
              Some (map va_format (vdpau_image_formats_map False)
                      @ replicate 3 (descriptor 0 0 0 0)),
              Some 7)"
proof -
  have len: "length (supported_formats example_env example_state) = 7"
    by (simp add: example_env_supports_all vdpau_image_formats_map_def)
  have room: "length (supported_formats example_env example_state)
                \<le> length (replicate 10 (descriptor 0 0 0 0))"
    and max: "length (supported_formats example_env example_state)
                \<le> VDPAU_MAX_IMAGE_FORMATS example_env"
    using len by (simp_all add: example_max_formats)
  note inst = QueryImageFormats_counts [of example_env example_state True
                "replicate 10 (descriptor 0 0 0 0)"]
  have probe: "vdpau_QueryImageFormats example_env example_state None True =
                 Returns (VA_STATUS_SUCCESS, None, Some 0)"
    using inst [THEN conjunct1] by simp
  have fill: "vdpau_QueryImageFormats example_env example_state
                  (Some (replicate 10 (descriptor 0 0 0 0))) True =
                Returns (VA_STATUS_SUCCESS,
                         Some (map va_format (vdpau_image_formats_map False)
                                 @ replicate 3 (descriptor 0 0 0 0)),
                         Some 7)"
    using inst [THEN conjunct2, THEN mp, OF conjI, OF room max]
    by (simp add: len) (simp add: example_env_supports_all)
  show ?thesis using room max probe fill by simp
qed

section \<open>Image creation: allocation, the switch and the teardown\<close>

lemma first_free_Some:
  "first_free h = Some i \<Longrightarrow> i < length h \<and> h ! i = None"
proof (induction h arbitrary: i)
  case Nil
  then show ?case by simp
next
  case (Cons x xs)
  then show ?case by (cases x) auto
qed

lemma object_heap_allocate_Some:
  assumes "object_heap_allocate h x = Some (i, heap)"
  shows "unat i < length h \<and> h ! unat i = None \<and> heap = h[unat i := Some x]"
proof -
  from assms obtain n where n: "first_free h = Some n" "n < 2 ^ 31" "i = of_nat n"
    "heap = h[n := Some x]"
    by (auto simp: object_heap_allocate_def split: option.splits if_splits)
  from n(2) have "unat (of_nat n :: u32) = n"
    by (simp add: unat_of_nat take_bit_nat_eq_self)
  with n first_free_Some [OF n(1)] show ?thesis by simp
qed

lemma CreateImage_after_allocation:
  assumes "object_heap_allocate (image_heap s) (fresh_object_image env) = Some (i, heap)"
  shows "vdpau_CreateImage env s (Some fmt) w h (Some p) =
         (case CreateImage_switch env (CreateImage_allocated s p i) fmt w h p i of
            Inl s3 \<Rightarrow> CreateImage_error env s3 VA_STATUS_ERROR_OPERATION_FAILED i
          | Inr s3 \<Rightarrow> CreateImage_finish env s3 fmt w h p i)"
proof -
  note a = object_heap_allocate_Some [OF assms]
  have "upd_obj_image
          (upd_image ((upd_image s p (\<lambda>img. img\<lparr>image_id := 0, buf := 0\<rparr>))\<lparr>image_heap := heap\<rparr>)
             p (\<lambda>img. img\<lparr>image_id := i\<rparr>))
          i (\<lambda>obj. obj\<lparr>image := Some p, vdp_rgba_surface := VDP_INVALID_HANDLE\<rparr>)
        = CreateImage_allocated s p i"
    using a by (cases "fresh_object_image env")
      (simp add: upd_obj_image_def upd_image_def CreateImage_allocated_def)
  with assms a show ?thesis
    by (simp add: vdpau_CreateImage_def Let_def upd_image_def lookup_defs)
qed

lemma allocated_slot:
  assumes "object_heap_allocate (image_heap s) x = Some (i, heap)"
  shows "slot_holds (CreateImage_allocated s p i) i p"
    and "(image_heap (CreateImage_allocated s p i))[unat i := None] = image_heap s"
    and "buffer_heap (CreateImage_allocated s p i) = buffer_heap s"
    and "vdp_calls (CreateImage_allocated s p i) = vdp_calls s"
  using object_heap_allocate_Some [OF assms]
  by (simp_all add: slot_holds_def CreateImage_allocated_def list_update_same_conv)

text \<open>The teardown: \<open>vdpau_DestroyImage\<close> on a slot that holds the image.\<close>

lemma DestroyImage_va_images:
  "va_images (snd (vdpau_DestroyImage env s i)) = va_images s"
  by (simp add: vdpau_DestroyImage_def Let_def record_call_def split: option.splits prod.splits)

lemma DestroyImage_slot:
  assumes "slot_holds s i p"
  shows "image_heap (snd (vdpau_DestroyImage env s i)) = (image_heap s)[unat i := None]"
    and "fst (vdpau_DestroyImage env s i) =
           fst (vdpau_DestroyBuffer env (buffer_heap s) (buf (va_images s p)))"
  using assms
  by (auto simp add: vdpau_DestroyImage_def Let_def record_call_def slot_holds_def lookup_defs
      object_heap_free_def split: option.splits prod.splits)

lemma DestroyImage_calls:
  assumes "slot_holds s i p"
  shows "vdp_calls (snd (vdpau_DestroyImage env s i)) =
           (case image_heap s ! unat i of
              None \<Rightarrow> vdp_calls s
            | Some obj \<Rightarrow>
                if vdp_rgba_surface obj \<noteq> VDP_INVALID_HANDLE
                then vdp_calls s @ [OutputSurfaceDestroy (vdp_rgba_surface obj)]
                else vdp_calls s)"
  using assms
  by (auto simp add: vdpau_DestroyImage_def Let_def record_call_def slot_holds_def lookup_defs
      split: option.splits prod.splits)

text \<open>The switch keeps the slot and leaves the other slots and the buffers alone.\<close>

lemma switch_slot:
  assumes "slot_holds s i p"
  shows "slot_holds (switch_state (CreateImage_switch env s fmt w h p i)) i p"
    and "(image_heap (switch_state (CreateImage_switch env s fmt w h p i)))[unat i := None] =
           (image_heap s)[unat i := None]"
    and "buffer_heap (switch_state (CreateImage_switch env s fmt w h p i)) = buffer_heap s"
  using assms
  by (auto simp add: CreateImage_switch_def switch_state_def Let_def slot_holds_def
      upd_image_def upd_obj_image_def record_call_def split: option.splits prod.splits)

lemma error_slot:
  assumes "slot_holds s i p"
  shows "fst (CreateImage_error env s st i) = st"
    and "image_heap (snd (CreateImage_error env s st i)) = (image_heap s)[unat i := None]"
  using DestroyImage_slot(1) [OF assms] by (simp_all add: CreateImage_error_def)

lemma finish_status:
  "fst (CreateImage_finish env s fmt w h p i) =
     fst (vdpau_CreateBuffer env (buffer_heap s) (data_size (va_images s p)))"
  by (simp add: CreateImage_finish_def Let_def CreateImage_error_def split: prod.splits)

lemma finish_failure:
  assumes "slot_holds s i p"
    and "fst (CreateImage_finish env s fmt w h p i) \<noteq> VA_STATUS_SUCCESS"
  shows "image_heap (snd (CreateImage_finish env s fmt w h p i)) = (image_heap s)[unat i := None]"
    and "\<exists>s3. slot_holds s3 i p \<and> image_heap s3 = image_heap s \<and> vdp_calls s3 = vdp_calls s \<and>
              snd (CreateImage_finish env s fmt w h p i) = snd (vdpau_DestroyImage env s3 i)"
proof -
  obtain va_status out bh where
    cb: "vdpau_CreateBuffer env (buffer_heap s) (data_size (va_images s p)) = (va_status, out, bh)"
    by (cases "vdpau_CreateBuffer env (buffer_heap s) (data_size (va_images s p))") auto
  define s2 where "s2 = (case out of None \<Rightarrow> s\<lparr>buffer_heap := bh\<rparr>
                         | Some b \<Rightarrow> upd_image (s\<lparr>buffer_heap := bh\<rparr>) p (\<lambda>img. img\<lparr>buf := b\<rparr>))"
  have heap: "image_heap s2 = image_heap s" and calls: "vdp_calls s2 = vdp_calls s"
    by (simp_all add: s2_def upd_image_def split: option.splits)
  with assms(1) have slot: "slot_holds s2 i p"
    by (simp add: slot_holds_def)
  from assms(2) cb have fail: "va_status \<noteq> VA_STATUS_SUCCESS"
    by (simp add: finish_status)
  with cb have eq: "CreateImage_finish env s fmt w h p i = CreateImage_error env s2 va_status i"
    by (simp add: CreateImage_finish_def Let_def s2_def)
  show "image_heap (snd (CreateImage_finish env s fmt w h p i)) = (image_heap s)[unat i := None]"
    using error_slot(2) [OF slot] heap eq by simp
  show "\<exists>s3. slot_holds s3 i p \<and> image_heap s3 = image_heap s \<and> vdp_calls s3 = vdp_calls s \<and>
              snd (CreateImage_finish env s fmt w h p i) = snd (vdpau_DestroyImage env s3 i)"
    using slot heap calls eq by (auto simp: CreateImage_error_def)
qed

lemma finish_layout:
  "num_planes (va_images (snd (CreateImage_finish env s fmt w h p i)) p) = num_planes (va_images s p)"
  "pitches (va_images (snd (CreateImage_finish env s fmt w h p i)) p) = pitches (va_images s p)"
  "offsets (va_images (snd (CreateImage_finish env s fmt w h p i)) p) = offsets (va_images s p)"
  "data_size (va_images (snd (CreateImage_finish env s fmt w h p i)) p) = data_size (va_images s p)"
  by (simp_all add: CreateImage_finish_def Let_def CreateImage_error_def DestroyImage_va_images
      upd_image_def upd_obj_image_def split: prod.splits option.splits)

text \<open>When the switch leaves through \<open>goto error\<close>.\<close>

lemma switch_fails_iff:
  "isl (CreateImage_switch env s fmt w h p i) \<longleftrightarrow>
     (fourcc fmt \<notin> {FOURCC_NV12, FOURCC_YV12, FOURCC_RGBA, FOURCC_UYVY, FOURCC_YUYV} \<or>
      fourcc fmt = FOURCC_RGBA \<and>
        (get_VdpRGBAFormat (WORDS_BIGENDIAN env) fmt = NOT_FOUND \<or>
         fst (vdpau env (OutputSurfaceCreate (vdp_device s)
                (get_VdpRGBAFormat (WORDS_BIGENDIAN env) fmt) w h)) \<noteq> VDP_STATUS_OK))"
  by (auto simp add: CreateImage_switch_def Let_def fourcc_defs split: prod.splits)

lemma CreateImage_status:
  assumes "object_heap_allocate (image_heap s) (fresh_object_image env) = Some (i, heap)"
  shows "fst (vdpau_CreateImage env s (Some fmt) w h (Some p)) =
           (case CreateImage_switch env (CreateImage_allocated s p i) fmt w h p i of
              Inl s3 \<Rightarrow> VA_STATUS_ERROR_OPERATION_FAILED
            | Inr s3 \<Rightarrow> fst (vdpau_CreateBuffer env (buffer_heap s) (data_size (va_images s3 p))))"
  using switch_slot(3) [OF allocated_slot(1) [OF assms], where env = env and fmt = fmt
      and w = w and h = h and p = p]
    allocated_slot(3) [OF assms, where p = p]
  by (simp add: CreateImage_after_allocation [OF assms] CreateImage_error_def finish_status
      switch_state_def split: sum.splits)

lemma CreateImage_failure:
  assumes alloc: "object_heap_allocate (image_heap s) (fresh_object_image env) = Some (i, heap)"
    and fail: "fst (vdpau_CreateImage env s (Some fmt) w h (Some p)) \<noteq> VA_STATUS_SUCCESS"
  shows "image_heap (snd (vdpau_CreateImage env s (Some fmt) w h (Some p))) = image_heap s"
    and "\<exists>s3. slot_holds s3 i p \<and>
              snd (vdpau_CreateImage env s (Some fmt) w h (Some p)) =
                snd (vdpau_DestroyImage env s3 i)"
proof -
  let ?r = "CreateImage_switch env (CreateImage_allocated s p i) fmt w h p i"
  note slot = switch_slot [OF allocated_slot(1) [OF alloc], where env = env and fmt = fmt
      and w = w and h = h and p = p]
  note restore = allocated_slot(2) [OF alloc, where p = p]
  show "image_heap (snd (vdpau_CreateImage env s (Some fmt) w h (Some p))) = image_heap s"
  proof (cases ?r)
    case (Inl s3)
    with slot(1,2) restore show ?thesis
      by (simp add: CreateImage_after_allocation [OF alloc] switch_state_def error_slot(2))
  next
    case (Inr s3)
    with fail have "fst (CreateImage_finish env s3 fmt w h p i) \<noteq> VA_STATUS_SUCCESS"
      by (simp add: CreateImage_after_allocation [OF alloc])
    with Inr slot(1,2) restore show ?thesis
      by (simp add: CreateImage_after_allocation [OF alloc] switch_state_def finish_failure(1))
  qed
  show "\<exists>s3. slot_holds s3 i p \<and>
              snd (vdpau_CreateImage env s (Some fmt) w h (Some p)) =
                snd (vdpau_DestroyImage env s3 i)"
  proof (cases ?r)
    case (Inl s3)
    with slot(1) show ?thesis
      by (auto simp add: CreateImage_after_allocation [OF alloc] switch_state_def
          CreateImage_error_def)
  next
    case (Inr s3)
    with fail have "fst (CreateImage_finish env s3 fmt w h p i) \<noteq> VA_STATUS_SUCCESS"
      by (simp add: CreateImage_after_allocation [OF alloc])
    with Inr slot(1) finish_failure(2) [of s3 i p env fmt w h] show ?thesis
      by (auto simp add: CreateImage_after_allocation [OF alloc] switch_state_def)
  qed
qed

lemma released_slot_lookup:
  assumes "object_heap_allocate h x = Some (i, heap)"
  shows "object_heap_lookup h i = None"
  using object_heap_allocate_Some [OF assms] by (simp add: object_heap_lookup_def)

lemma switch_rgba_miss:
  assumes "fourcc fmt = FOURCC_RGBA"
    and "\<forall>d \<in> set (vdpau_image_formats_map (WORDS_BIGENDIAN env)). \<not> matches_RGBA d fmt"
  shows "CreateImage_switch env s fmt w h p i = Inl s"
  using assms(1) RGBA_loop_miss [OF assms(2)]
  by (simp add: CreateImage_switch_def Let_def get_VdpRGBAFormat_def fourcc_defs)

lemma CreateImage_rgba_miss:
  assumes alloc: "object_heap_allocate (image_heap s) (fresh_object_image env) = Some (i, heap)"
    and "fourcc fmt = FOURCC_RGBA"
    and "\<forall>d \<in> set (vdpau_image_formats_map (WORDS_BIGENDIAN env)). \<not> matches_RGBA d fmt"
  shows "fst (vdpau_CreateImage env s (Some fmt) w h (Some p)) = VA_STATUS_ERROR_OPERATION_FAILED"
    and "image_heap (snd (vdpau_CreateImage env s (Some fmt) w h (Some p))) = image_heap s"
    and "vdp_calls (snd (vdpau_CreateImage env s (Some fmt) w h (Some p))) = vdp_calls s"
proof -
  note sw = switch_rgba_miss [OF assms(2,3)]
  note slot = allocated_slot(1) [OF alloc, where p = p]
  show st: "fst (vdpau_CreateImage env s (Some fmt) w h (Some p)) = VA_STATUS_ERROR_OPERATION_FAILED"
    by (simp add: CreateImage_status [OF alloc] sw)
  then show "image_heap (snd (vdpau_CreateImage env s (Some fmt) w h (Some p))) = image_heap s"
    by (simp add: CreateImage_failure(1) [OF alloc])
  show "vdp_calls (snd (vdpau_CreateImage env s (Some fmt) w h (Some p))) = vdp_calls s"
    using object_heap_allocate_Some [OF alloc]
    by (simp add: CreateImage_after_allocation [OF alloc] sw CreateImage_error_def
        DestroyImage_calls [OF slot])
       (simp add: CreateImage_allocated_def)
qed

lemma example_allocation:
  "object_heap_allocate (image_heap example_state) (fresh_object_image env) =
     Some (0, [Some (fresh_object_image env), None])"
  by (simp add: example_state_def object_heap_allocate_def)

lemma unknown_masks_match_nothing:
  "\<forall>d \<in> set (vdpau_image_formats_map (WORDS_BIGENDIAN example_env)).
     \<not> matches_RGBA d (descriptor FOURCC_RGBA 1 2 3)"
  by (simp add: example_env_def catalog_defs matches_RGBA_def descriptor_def)

text \<open>
  C3, as stated, at a 4x4 RGBA descriptor whose masks 1, 2, 3 are those of no row of
  the table: the status is \<open>VA_STATUS_ERROR_OPERATION_FAILED\<close>, which is none of the
  INVALID statuses.
\<close>

theorem CreateImage_rgba_mismatch_not_INVALID:
  "list_all (\<lambda>d. \<not> matches_RGBA d (descriptor FOURCC_RGBA 1 2 3)) (vdpau_image_formats_map False) \<and>
   fst (vdpau_CreateImage example_env example_state (Some (descriptor FOURCC_RGBA 1 2 3)) 4 4 (Some 0))
     = VA_STATUS_ERROR_OPERATION_FAILED \<and>
   \<not> is_INVALID_status
       (fst (vdpau_CreateImage example_env example_state
               (Some (descriptor FOURCC_RGBA 1 2 3)) 4 4 (Some 0)))"
proof -
  have "fourcc (descriptor FOURCC_RGBA 1 2 3) = FOURCC_RGBA"
    by (simp add: descriptor_def)
  from CreateImage_rgba_miss(1) [OF example_allocation this unknown_masks_match_nothing]
  have "fst (vdpau_CreateImage example_env example_state
               (Some (descriptor FOURCC_RGBA 1 2 3)) 4 4 (Some 0))
          = VA_STATUS_ERROR_OPERATION_FAILED" .
  moreover have "list_all (\<lambda>d. \<not> matches_RGBA d (descriptor FOURCC_RGBA 1 2 3))
                   (vdpau_image_formats_map False)"
    using unknown_masks_match_nothing by (simp add: list_all_iff example_env_def)
  ultimately show ?thesis by simp
qed

text \<open>
  C3, amended.  For every width and height, \<open>vdpau_CreateImage\<close> called with a
  descriptor of fourcc RGBA that matches no row of the table (in fourcc, byte order and
  red, green and blue masks), once its slot is allocated, fails with
  \<open>VA_STATUS_ERROR_OPERATION_FAILED\<close>; the slot is released (the image heap is as
  before the call and the id resolves to nothing) and no call on the accelerator is
  made.
\<close>

theorem CreateImage_rgba_mismatch:
  assumes "object_heap_allocate (image_heap s) (fresh_object_image env) = Some (i, heap)"
    and "fourcc fmt = FOURCC_RGBA"
    and "\<forall>d \<in> set (vdpau_image_formats_map (WORDS_BIGENDIAN env)). \<not> matches_RGBA d fmt"
  shows "fst (vdpau_CreateImage env s (Some fmt) w h (Some p)) = VA_STATUS_ERROR_OPERATION_FAILED \<and>
         image_heap (snd (vdpau_CreateImage env s (Some fmt) w h (Some p))) = image_heap s \<and>
         VDPAU_IMAGE (snd (vdpau_CreateImage env s (Some fmt) w h (Some p))) i = None \<and>
         vdp_calls (snd (vdpau_CreateImage env s (Some fmt) w h (Some p))) = vdp_calls s"
  using CreateImage_rgba_miss [OF assms] released_slot_lookup [OF assms(1)]
  by (simp add: VDPAU_IMAGE_def)

text \<open>The theorem at the 4x4 image with the masks 1, 2, 3 in the example state.\<close>

theorem CreateImage_rgba_mismatch_witness:
  "object_heap_allocate (image_heap example_state) (fresh_object_image example_env) =
     Some (0, [Some (fresh_object_image example_env), None]) \<and>
   fourcc (descriptor FOURCC_RGBA 1 2 3) = FOURCC_RGBA \<and>
   list_all (\<lambda>d. \<not> matches_RGBA d (descriptor FOURCC_RGBA 1 2 3)) (vdpau_image_formats_map False) \<and>
   fst (vdpau_CreateImage example_env example_state (Some (descriptor FOURCC_RGBA 1 2 3)) 4 4 (Some 0))
     = VA_STATUS_ERROR_OPERATION_FAILED \<and>
   image_heap (snd (vdpau_CreateImage example_env example_state
                      (Some (descriptor FOURCC_RGBA 1 2 3)) 4 4 (Some 0))) = [None, None] \<and>
   VDPAU_IMAGE (snd (vdpau_CreateImage example_env example_state
                       (Some (descriptor FOURCC_RGBA 1 2 3)) 4 4 (Some 0))) 0 = None \<and>
   vdp_calls (snd (vdpau_CreateImage example_env example_state
                     (Some (descriptor FOURCC_RGBA 1 2 3)) 4 4 (Some 0))) = []"
proof -
  have f: "fourcc (descriptor FOURCC_RGBA 1 2 3) = FOURCC_RGBA"
    by (simp add: descriptor_def)
  have m: "list_all (\<lambda>d. \<not> matches_RGBA d (descriptor FOURCC_RGBA 1 2 3))
             (vdpau_image_formats_map False)"
    using unknown_masks_match_nothing by (simp add: list_all_iff example_env_def)
  have s: "image_heap example_state = [None, None]" "vdp_calls example_state = []"
    by (simp_all add: example_state_def)
  show ?thesis
    using CreateImage_rgba_mismatch [OF example_allocation f unknown_masks_match_nothing,
            of 4 4 0]
      example_allocation [of example_env] f m
    by (simp add: s)
qed

lemma CreateImage_failure_status:
  assumes alloc: "object_heap_allocate (image_heap s) (fresh_object_image env) = Some (i, heap)"
  shows "fst (vdpau_CreateImage env s (Some fmt) w h (Some p)) =
           (if fourcc fmt \<notin> {FOURCC_NV12, FOURCC_YV12, FOURCC_RGBA, FOURCC_UYVY, FOURCC_YUYV} \<or>
               fourcc fmt = FOURCC_RGBA \<and>
                 (get_VdpRGBAFormat (WORDS_BIGENDIAN env) fmt = NOT_FOUND \<or>
                  fst (vdpau env (OutputSurfaceCreate (vdp_device s)
                         (get_VdpRGBAFormat (WORDS_BIGENDIAN env) fmt) w h)) \<noteq> VDP_STATUS_OK)
            then VA_STATUS_ERROR_OPERATION_FAILED
            else fst (vdpau_CreateBuffer env (buffer_heap s)
                        (data_size (va_images
                           (snd (vdpau_CreateImage env s (Some fmt) w h (Some p))) p))))"
proof -
  let ?r = "CreateImage_switch env (CreateImage_allocated s p i) fmt w h p i"
  have dev: "vdp_device (CreateImage_allocated s p i) = vdp_device s"
    by (simp add: CreateImage_allocated_def)
  have iff: "isl ?r \<longleftrightarrow>
     (fourcc fmt \<notin> {FOURCC_NV12, FOURCC_YV12, FOURCC_RGBA, FOURCC_UYVY, FOURCC_YUYV} \<or>
      fourcc fmt = FOURCC_RGBA \<and>
        (get_VdpRGBAFormat (WORDS_BIGENDIAN env) fmt = NOT_FOUND \<or>
         fst (vdpau env (OutputSurfaceCreate (vdp_device s)
                (get_VdpRGBAFormat (WORDS_BIGENDIAN env) fmt) w h)) \<noteq> VDP_STATUS_OK))"
    (is "_ \<longleftrightarrow> ?fails")
    using switch_fails_iff [of env "CreateImage_allocated s p i" fmt w h p i]
    by (simp only: dev)
  show ?thesis
  proof (cases ?r)
    case (Inl s3)
    with iff have ?fails by simp
    moreover have "fst (vdpau_CreateImage env s (Some fmt) w h (Some p)) =
                     VA_STATUS_ERROR_OPERATION_FAILED"
      using Inl by (simp add: CreateImage_status [OF alloc])
    ultimately show ?thesis by (simp only: if_True)
  next
    case (Inr s3)
    with iff have "\<not> ?fails" by simp
    moreover have "data_size (va_images (snd (vdpau_CreateImage env s (Some fmt) w h (Some p))) p)
                     = data_size (va_images s3 p)"
      using Inr by (simp add: CreateImage_after_allocation [OF alloc] finish_layout)
    moreover have "fst (vdpau_CreateImage env s (Some fmt) w h (Some p)) =
                     fst (vdpau_CreateBuffer env (buffer_heap s) (data_size (va_images s3 p)))"
      using Inr by (simp add: CreateImage_status [OF alloc])
    ultimately show ?thesis by (simp only: if_False)
  qed
qed

text \<open>
  C8.  Let the slot \<open>i\<close> have been allocated by \<open>vdpau_CreateImage\<close>, and let the
  call fail.  Then the state returned is the one \<open>vdpau_DestroyImage\<close> leaves when it is
  run on the slot, which holds the image; the image heap is as it was before the call,
  the id resolves to nothing, and a new allocation returns the same id.  The status
  returned is \<open>VA_STATUS_ERROR_OPERATION_FAILED\<close> when the fourcc is none of NV12, YV12,
  RGBA, UYVY and YUYV, when the RGBA descriptor is not in the table, and when the
  companion surface cannot be created; otherwise it is the status of the buffer
  allocation.  The status of the teardown, whatever it is, is not returned.
\<close>

theorem CreateImage_failure_unwinds:
  assumes "object_heap_allocate (image_heap s) (fresh_object_image env) = Some (i, heap)"
    and "fst (vdpau_CreateImage env s (Some fmt) w h (Some p)) \<noteq> VA_STATUS_SUCCESS"
  shows "(\<exists>s3. slot_holds s3 i p \<and>
               snd (vdpau_CreateImage env s (Some fmt) w h (Some p)) =
                 snd (vdpau_DestroyImage env s3 i)) \<and>
         image_heap (snd (vdpau_CreateImage env s (Some fmt) w h (Some p))) = image_heap s \<and>
         VDPAU_IMAGE (snd (vdpau_CreateImage env s (Some fmt) w h (Some p))) i = None \<and>
         object_heap_allocate (image_heap (snd (vdpau_CreateImage env s (Some fmt) w h (Some p))))
             (fresh_object_image env) = Some (i, heap) \<and>
         (fourcc fmt \<notin> {FOURCC_NV12, FOURCC_YV12, FOURCC_RGBA, FOURCC_UYVY, FOURCC_YUYV} \<longrightarrow>
            fst (vdpau_CreateImage env s (Some fmt) w h (Some p)) = VA_STATUS_ERROR_OPERATION_FAILED) \<and>
         (fourcc fmt = FOURCC_RGBA \<and> get_VdpRGBAFormat (WORDS_BIGENDIAN env) fmt = NOT_FOUND \<longrightarrow>
            fst (vdpau_CreateImage env s (Some fmt) w h (Some p)) = VA_STATUS_ERROR_OPERATION_FAILED) \<and>
         (fourcc fmt = FOURCC_RGBA \<and> get_VdpRGBAFormat (WORDS_BIGENDIAN env) fmt \<noteq> NOT_FOUND \<and>
          fst (vdpau env (OutputSurfaceCreate (vdp_device s)
                 (get_VdpRGBAFormat (WORDS_BIGENDIAN env) fmt) w h)) \<noteq> VDP_STATUS_OK \<longrightarrow>
            fst (vdpau_CreateImage env s (Some fmt) w h (Some p)) = VA_STATUS_ERROR_OPERATION_FAILED) \<and>
         (fourcc fmt \<in> {FOURCC_NV12, FOURCC_YV12, FOURCC_UYVY, FOURCC_YUYV} \<or>
          fourcc fmt = FOURCC_RGBA \<and> get_VdpRGBAFormat (WORDS_BIGENDIAN env) fmt \<noteq> NOT_FOUND \<and>
          fst (vdpau env (OutputSurfaceCreate (vdp_device s)
                 (get_VdpRGBAFormat (WORDS_BIGENDIAN env) fmt) w h)) = VDP_STATUS_OK \<longrightarrow>
            fst (vdpau_CreateImage env s (Some fmt) w h (Some p)) =
              fst (vdpau_CreateBuffer env (buffer_heap s)
                     (data_size (va_images
                        (snd (vdpau_CreateImage env s (Some fmt) w h (Some p))) p))))"
proof -
  note heap = CreateImage_failure(1) [OF assms]
  have "VDPAU_IMAGE (snd (vdpau_CreateImage env s (Some fmt) w h (Some p))) i = None"
    using released_slot_lookup [OF assms(1)] by (simp add: VDPAU_IMAGE_def heap)
  moreover have "FOURCC_RGBA \<notin> {FOURCC_NV12, FOURCC_YV12, FOURCC_UYVY, FOURCC_YUYV}"
    by (simp add: fourcc_defs)
  ultimately show ?thesis
    using CreateImage_failure(2) [OF assms] assms(1)
      CreateImage_failure_status [OF assms(1), of fmt w h p]
    by (auto simp add: heap)
qed

lemma example_env_fields:
  "WORDS_BIGENDIAN example_env = False"
  "WORDS_BIGENDIAN failing_env = False"
  "WORDS_BIGENDIAN rejecting_env = False"
  "vdpau example_env c = (VDP_STATUS_OK, Some 1)"
  "vdpau failing_env c = (VDP_STATUS_OK, Some 1)"
  "vdpau rejecting_env c = (VDP_STATUS_INVALID_VALUE, None)"
  "vdpau_CreateBuffer example_env bh sz = (VA_STATUS_SUCCESS, Some 7, bh(7 \<mapsto> \<lparr>buffer_data = 4096\<rparr>))"
  "vdpau_CreateBuffer failing_env bh sz = (VA_STATUS_ERROR_ALLOCATION_FAILED, None, bh)"
  "vdpau_DestroyBuffer example_env bh b =
     (if bh b = None then VA_STATUS_ERROR_INVALID_BUFFER else VA_STATUS_SUCCESS, bh(b := None))"
  by (simp_all add: example_env_def failing_env_def rejecting_env_def)

lemma example_state_fields:
  "image_heap example_state = [None, None]"
  "buffer_heap example_state = Map.empty"
  "vdp_calls example_state = []"
  "vdp_device example_state = 1"
  by (simp_all add: example_state_def)

text \<open>
  The theorem at four failing calls in the example state, whose slot 0 is free: the
  fourcc AYUV, which the switch does not know; the RGBA masks 1, 2, 3; the row R8G8B8A8
  on an accelerator that refuses to create the surface; a YV12 image with a buffer
  allocator that fails.  In the first call the teardown itself fails (the buffer 0 does
  not exist) and the status is still \<open>VA_STATUS_ERROR_OPERATION_FAILED\<close>.
\<close>

theorem CreateImage_failure_unwinds_witness:
  "object_heap_allocate (image_heap example_state) (fresh_object_image example_env) =
     Some (0, [Some (fresh_object_image example_env), None]) \<and>
   fst (vdpau_CreateImage example_env example_state (Some (descriptor FOURCC_AYUV 0 0 0)) 4 4 (Some 0))
     \<noteq> VA_STATUS_SUCCESS \<and>
   fourcc (descriptor FOURCC_AYUV 0 0 0)
     \<notin> {FOURCC_NV12, FOURCC_YV12, FOURCC_RGBA, FOURCC_UYVY, FOURCC_YUYV} \<and>
   fst (vdpau_DestroyBuffer example_env (buffer_heap example_state) 0)
     = VA_STATUS_ERROR_INVALID_BUFFER \<and>
   vdpau_CreateImage example_env example_state (Some (descriptor FOURCC_AYUV 0 0 0)) 4 4 (Some 0)
     = (VA_STATUS_ERROR_OPERATION_FAILED,
        snd (vdpau_CreateImage example_env example_state
               (Some (descriptor FOURCC_AYUV 0 0 0)) 4 4 (Some 0))) \<and>
   image_heap (snd (vdpau_CreateImage example_env example_state
                      (Some (descriptor FOURCC_AYUV 0 0 0)) 4 4 (Some 0))) = [None, None] \<and>
   VDPAU_IMAGE (snd (vdpau_CreateImage example_env example_state
                       (Some (descriptor FOURCC_AYUV 0 0 0)) 4 4 (Some 0))) 0 = None \<and>
   get_VdpRGBAFormat (WORDS_BIGENDIAN example_env) (descriptor FOURCC_RGBA 1 2 3) = NOT_FOUND \<and>
   fst (vdpau_CreateImage example_env example_state (Some (descriptor FOURCC_RGBA 1 2 3)) 4 4 (Some 0))
     = VA_STATUS_ERROR_OPERATION_FAILED \<and>
   get_VdpRGBAFormat (WORDS_BIGENDIAN rejecting_env) (descriptor FOURCC_RGBA 0xff 0xff00 0xff0000)
     \<noteq> NOT_FOUND \<and>
   fst (vdpau_CreateImage rejecting_env example_state
          (Some (descriptor FOURCC_RGBA 0xff 0xff00 0xff0000)) 4 4 (Some 0))
     = VA_STATUS_ERROR_OPERATION_FAILED \<and>
   image_heap (snd (vdpau_CreateImage rejecting_env example_state
                      (Some (descriptor FOURCC_RGBA 0xff 0xff00 0xff0000)) 4 4 (Some 0)))
     = [None, None] \<and>
   fst (vdpau_CreateImage failing_env example_state (Some (descriptor FOURCC_YV12 0 0 0)) 4 4 (Some 0))
     = VA_STATUS_ERROR_ALLOCATION_FAILED \<and>
   image_heap (snd (vdpau_CreateImage failing_env example_state
                      (Some (descriptor FOURCC_YV12 0 0 0)) 4 4 (Some 0))) = [None, None]"
proof -
  let ?ayuv = "descriptor FOURCC_AYUV 0 0 0"
  let ?bad = "descriptor FOURCC_RGBA 1 2 3"
  let ?rgba = "descriptor FOURCC_RGBA 0xff 0xff00 0xff0000"
  let ?yv12 = "descriptor FOURCC_YV12 0 0 0"
  have f: "fourcc ?ayuv \<notin> {FOURCC_NV12, FOURCC_YV12, FOURCC_RGBA, FOURCC_UYVY, FOURCC_YUYV}"
    "fourcc ?bad = FOURCC_RGBA" "fourcc ?rgba = FOURCC_RGBA"
    "fourcc ?yv12 \<in> {FOURCC_NV12, FOURCC_YV12, FOURCC_UYVY, FOURCC_YUYV}"
    by (simp_all add: descriptor_def fourcc_defs)
  have l: "get_VdpRGBAFormat (WORDS_BIGENDIAN example_env) ?bad = NOT_FOUND"
    "get_VdpRGBAFormat (WORDS_BIGENDIAN rejecting_env) ?rgba = VDP_RGBA_FORMAT_R8G8B8A8"
    "VDP_RGBA_FORMAT_R8G8B8A8 \<noteq> NOT_FOUND"
    by (simp_all add: RGBA_lookup_eq example_env_fields descriptor_def fourcc_defs
        VA_LSB_FIRST_def vdp_format_defs NOT_FOUND_def)
  have n1: "fst (vdpau_CreateImage example_env example_state (Some ?ayuv) 4 4 (Some 0))
              \<noteq> VA_STATUS_SUCCESS"
    using f(1) by (simp add: CreateImage_failure_status [OF example_allocation])
  have n2: "fst (vdpau_CreateImage example_env example_state (Some ?bad) 4 4 (Some 0))
              \<noteq> VA_STATUS_SUCCESS"
    using f(2) l(1) by (simp add: CreateImage_failure_status [OF example_allocation])
  have n3: "fst (vdpau_CreateImage rejecting_env example_state (Some ?rgba) 4 4 (Some 0))
              \<noteq> VA_STATUS_SUCCESS"
    using f(3) l(2,3)
    by (simp add: CreateImage_failure_status [OF example_allocation] example_env_fields)
  have n4: "fst (vdpau_CreateImage failing_env example_state (Some ?yv12) 4 4 (Some 0))
              \<noteq> VA_STATUS_SUCCESS"
    using f(4)
    by (simp add: CreateImage_failure_status [OF example_allocation] example_env_fields
        fourcc_defs)
  note u1 = CreateImage_failure_unwinds [OF example_allocation n1]
  note u2 = CreateImage_failure_unwinds [OF example_allocation n2]
  note u3 = CreateImage_failure_unwinds [OF example_allocation n3]
  note u4 = CreateImage_failure_unwinds [OF example_allocation n4]
  have r1: "fst (vdpau_CreateImage example_env example_state (Some ?ayuv) 4 4 (Some 0))
              = VA_STATUS_ERROR_OPERATION_FAILED"
    using u1 f(1) by blast
  have h1: "image_heap (snd (vdpau_CreateImage example_env example_state (Some ?ayuv) 4 4 (Some 0)))
              = [None, None]"
    and v1: "VDPAU_IMAGE (snd (vdpau_CreateImage example_env example_state
                                 (Some ?ayuv) 4 4 (Some 0))) 0 = None"
    using u1 by (simp_all add: example_state_fields)
  have r2: "fst (vdpau_CreateImage example_env example_state (Some ?bad) 4 4 (Some 0))
              = VA_STATUS_ERROR_OPERATION_FAILED"
    using u2 f(2) l(1) by blast
  have r3: "fst (vdpau_CreateImage rejecting_env example_state (Some ?rgba) 4 4 (Some 0))
              = VA_STATUS_ERROR_OPERATION_FAILED"
    using u3 [THEN conjunct2, THEN conjunct2, THEN conjunct2, THEN conjunct2, THEN conjunct2,
              THEN conjunct2, THEN conjunct1] f(3) l(2,3)
    by (simp add: example_env_fields)
  have h3: "image_heap (snd (vdpau_CreateImage rejecting_env example_state
                               (Some ?rgba) 4 4 (Some 0))) = [None, None]"
    using u3 by (simp add: example_state_fields)
  have r4: "fst (vdpau_CreateImage failing_env example_state (Some ?yv12) 4 4 (Some 0))
              = VA_STATUS_ERROR_ALLOCATION_FAILED"
    using u4 [THEN conjunct2, THEN conjunct2, THEN conjunct2, THEN conjunct2, THEN conjunct2,
              THEN conjunct2, THEN conjunct2] f(4)
    by (auto simp add: example_env_fields)
  have h4: "image_heap (snd (vdpau_CreateImage failing_env example_state
                               (Some ?yv12) 4 4 (Some 0))) = [None, None]"
    using u4 by (simp add: example_state_fields)
  have d: "fst (vdpau_DestroyBuffer example_env (buffer_heap example_state) 0)
             = VA_STATUS_ERROR_INVALID_BUFFER"
    by (simp add: example_env_fields example_state_fields)
  have p1: "vdpau_CreateImage example_env example_state (Some ?ayuv) 4 4 (Some 0)
     = (VA_STATUS_ERROR_OPERATION_FAILED,
        snd (vdpau_CreateImage example_env example_state (Some ?ayuv) 4 4 (Some 0)))"
    using r1 by (simp add: prod_eq_iff)
  show ?thesis
    using example_allocation [of example_env] n1 f(1) d p1 h1 v1 l r2 r3 h3 r4 h4
    by simp
qed

section \<open>Image creation: the plane layouts\<close>

lemma upd_image_at: "va_images (upd_image s p f) p = f (va_images s p)"
  by (simp add: upd_image_def)

lemma switch_nv12:
  "fourcc fmt = FOURCC_NV12 \<Longrightarrow>
   CreateImage_switch env s fmt w h p i =
     Inr (upd_image s p (\<lambda>img. img\<lparr>num_planes := 2,
            pitches := (pitches img)(0 := w, 1 := w),
            offsets := (offsets img)(0 := 0, 1 := w * h),
            data_size := w * h + 2 * (c_sdiv (w + 1) 2 * c_sdiv (h + 1) 2)\<rparr>))"
  by (simp add: CreateImage_switch_def Let_def)

lemma switch_yv12:
  "fourcc fmt = FOURCC_YV12 \<Longrightarrow>
   CreateImage_switch env s fmt w h p i =
     Inr (upd_image s p (\<lambda>img. img\<lparr>num_planes := 3,
            pitches := (pitches img)(0 := w, 1 := c_sdiv (w + 1) 2, 2 := c_sdiv (w + 1) 2),
            offsets := (offsets img)(0 := 0, 1 := w * h + c_sdiv (w + 1) 2 * c_sdiv (h + 1) 2,
                                     2 := w * h),
            data_size := w * h + 2 * (c_sdiv (w + 1) 2 * c_sdiv (h + 1) 2)\<rparr>))"
  by (simp add: CreateImage_switch_def Let_def fourcc_defs)

lemma switch_packed_yuv:
  "fourcc fmt = FOURCC_UYVY \<or> fourcc fmt = FOURCC_YUYV \<Longrightarrow>
   CreateImage_switch env s fmt w h p i = Inr (upd_image s p (packed_layout w h))"
  by (auto simp add: CreateImage_switch_def Let_def fourcc_defs)

lemma switch_rgba:
  "fourcc fmt = FOURCC_RGBA \<Longrightarrow>
   get_VdpRGBAFormat (WORDS_BIGENDIAN env) fmt \<noteq> NOT_FOUND \<Longrightarrow>
   fst (vdpau env (OutputSurfaceCreate (vdp_device s)
          (get_VdpRGBAFormat (WORDS_BIGENDIAN env) fmt) w h)) = VDP_STATUS_OK \<Longrightarrow>
   \<exists>s2. CreateImage_switch env s fmt w h p i = Inr (upd_image s2 p (packed_layout w h)) \<and>
        va_images s2 = va_images s"
  by (auto simp add: CreateImage_switch_def Let_def fourcc_defs record_call_def upd_obj_image_def
      split: prod.splits option.splits)

lemma packed_layout_fields:
  "num_planes (packed_layout w h img) = 1"
  "pitches (packed_layout w h img) 0 = w * 4"
  "offsets (packed_layout w h img) 0 = 0"
  "data_size (packed_layout w h img) = w * 4 * h"
  by (simp_all add: packed_layout_def Let_def)

lemma CreateImage_layout_of_switch:
  assumes "object_heap_allocate (image_heap s) (fresh_object_image env) = Some (i, heap)"
    and "CreateImage_switch env (CreateImage_allocated s p i) fmt w h p i = Inr (upd_image s2 p f)"
  shows "num_planes (va_images (snd (vdpau_CreateImage env s (Some fmt) w h (Some p))) p) =
           num_planes (f (va_images s2 p))"
    and "pitches (va_images (snd (vdpau_CreateImage env s (Some fmt) w h (Some p))) p) =
           pitches (f (va_images s2 p))"
    and "offsets (va_images (snd (vdpau_CreateImage env s (Some fmt) w h (Some p))) p) =
           offsets (f (va_images s2 p))"
    and "data_size (va_images (snd (vdpau_CreateImage env s (Some fmt) w h (Some p))) p) =
           data_size (f (va_images s2 p))"
  using assms(2)
  by (simp_all add: CreateImage_after_allocation [OF assms(1)] finish_layout upd_image_at)

text \<open>The halves of the sizes: C's \<open>(n + 1) / 2\<close> is the ceiling of \<open>n / 2\<close> from 0 up to the
  largest \<open>int\<close> but one.\<close>

lemma c_sdiv_half:
  assumes "0 \<le> sint n" and "sint n < 2 ^ 31 - 1"
  shows "sint (c_sdiv (n + 1) 2) = (sint n + 1) div 2"
    and "uint (c_sdiv (n + 1) 2) = (sint n + 1) div 2"
proof -
  have s1: "sint (n + 1) = sint n + 1"
    using assms by (simp add: sint_word_ariths signed_take_bit_int_eq_self)
  have d: "(sint n + 1) sdiv 2 = (sint n + 1) div 2"
    using assms by (simp add: signed_divide_int_def sgn_if)
  have r: "0 \<le> (sint n + 1) div 2" "(sint n + 1) div 2 < 2 ^ 31"
    using assms by simp_all
  have c: "c_sdiv (n + 1) 2 = word_of_int ((sint n + 1) div 2)"
    using d by (simp add: c_sdiv_def s1)
  show "sint (c_sdiv (n + 1) 2) = (sint n + 1) div 2"
    using r unfolding c by (simp add: sint_sbintrunc' signed_take_bit_int_eq_self)
  show "uint (c_sdiv (n + 1) 2) = (sint n + 1) div 2"
    using r unfolding c by (simp add: uint_word_of_int_eq take_bit_int_eq_self)
qed

lemma half_ceiling: "(k + 1) div 2 = \<lceil>real_of_int k / 2\<rceil>" for k :: int
proof -
  have "\<lceil>real_of_int k / real_of_int 2\<rceil> = - (- k div 2)"
    by (rule ceiling_divide_eq_div)
  then show ?thesis by simp
qed

lemma c_sdiv_ceil_half:
  assumes "0 \<le> sint n" and "sint n < 2 ^ 31 - 1"
  shows "sint (c_sdiv (n + 1) 2) = ceil_half n" and "uint (c_sdiv (n + 1) 2) = ceil_half n"
  using c_sdiv_half [OF assms] by (simp_all add: ceil_half_def half_ceiling)

lemma uint_nonneg_sint: "0 \<le> sint n \<Longrightarrow> uint n = sint n" for n :: u32
  using sint_lt [of n] by (simp add: uint_sint take_bit_int_eq_self)

lemma uint_exact:
  fixes a b c d :: u32
  assumes "uint a * uint b + 2 * (uint c * uint d) < 2 ^ 32"
  shows "uint (a * b) = uint a * uint b"
    and "uint (a * b + c * d) = uint a * uint b + uint c * uint d"
    and "uint (a * b + 2 * (c * d)) = uint a * uint b + 2 * (uint c * uint d)"
proof -
  have nn: "0 \<le> uint a * uint b" "0 \<le> uint c * uint d" by simp_all
  have two: "uint (2 :: u32) = 2" by simp
  have len: "(2 :: int) ^ LENGTH(32) = 2 ^ 32" by simp
  from nn assms have ab: "uint a * uint b < 2 ^ LENGTH(32)"
    unfolding len by linarith
  from nn assms have cd: "uint c * uint d < 2 ^ LENGTH(32)"
    unfolding len by linarith
  from nn assms have cd2: "uint (2 :: u32) * (uint c * uint d) < 2 ^ LENGTH(32)"
    unfolding len two by linarith
  show m1: "uint (a * b) = uint a * uint b"
    using ab by (simp only: uint_mult_lem)
  have m2: "uint (c * d) = uint c * uint d"
    using cd by (simp only: uint_mult_lem)
  have m3: "uint (2 * (c * d)) = 2 * (uint c * uint d)"
    using cd2 uint_mult_lem [of 2 "c * d"] by (simp only: m2 two)
  show "uint (a * b + c * d) = uint a * uint b + uint c * uint d"
    using assms nn uint_add_lem [of "a * b" "c * d"] unfolding m1 m2 len by linarith
  show "uint (a * b + 2 * (c * d)) = uint a * uint b + 2 * (uint c * uint d)"
    using assms nn uint_add_lem [of "a * b" "2 * (c * d)"] unfolding m1 m3 len by linarith
qed

lemma layout_exact:
  fixes w h :: u32
  assumes "0 \<le> sint w" "sint w < 2 ^ 31 - 1" "0 \<le> sint h" "sint h < 2 ^ 31 - 1"
    and "sint w * sint h + 2 * (ceil_half w * ceil_half h) < 2 ^ 32"
  shows "uint (w * h) = sint w * sint h"
    and "uint (w * h + c_sdiv (w + 1) 2 * c_sdiv (h + 1) 2) =
           sint w * sint h + ceil_half w * ceil_half h"
    and "uint (w * h + 2 * (c_sdiv (w + 1) 2 * c_sdiv (h + 1) 2)) =
           sint w * sint h + 2 * (ceil_half w * ceil_half h)"
proof -
  note u = uint_nonneg_sint [OF assms(1)] uint_nonneg_sint [OF assms(3)]
    c_sdiv_ceil_half(2) [OF assms(1,2)] c_sdiv_ceil_half(2) [OF assms(3,4)]
  from assms(5) have
    "uint w * uint h + 2 * (uint (c_sdiv (w + 1) 2) * uint (c_sdiv (h + 1) 2)) < 2 ^ 32"
    by (simp only: u)
  from uint_exact [OF this] show
    "uint (w * h) = sint w * sint h"
    "uint (w * h + c_sdiv (w + 1) 2 * c_sdiv (h + 1) 2) =
           sint w * sint h + ceil_half w * ceil_half h"
    "uint (w * h + 2 * (c_sdiv (w + 1) 2 * c_sdiv (h + 1) 2)) =
           sint w * sint h + 2 * (ceil_half w * ceil_half h)"
    by (simp_all only: u)
qed

lemma CreateImage_yv12_fields:
  assumes "object_heap_allocate (image_heap s) (fresh_object_image env) = Some (i, heap)"
    and "fourcc fmt = FOURCC_YV12"
  shows "num_planes (created_image env s fmt w h p) = 3"
    and "planes3 (pitches (created_image env s fmt w h p)) =
           [w, c_sdiv (w + 1) 2, c_sdiv (w + 1) 2]"
    and "planes3 (offsets (created_image env s fmt w h p)) =
           [0, w * h + c_sdiv (w + 1) 2 * c_sdiv (h + 1) 2, w * h]"
    and "data_size (created_image env s fmt w h p) =
           w * h + 2 * (c_sdiv (w + 1) 2 * c_sdiv (h + 1) 2)"
  unfolding created_image_def
  by (simp_all add: CreateImage_layout_of_switch [OF assms(1) switch_yv12 [OF assms(2)]]
      planes3_def)

lemma CreateImage_nv12_fields:
  assumes "object_heap_allocate (image_heap s) (fresh_object_image env) = Some (i, heap)"
    and "fourcc fmt = FOURCC_NV12"
  shows "num_planes (created_image env s fmt w h p) = 2"
    and "take 2 (planes3 (pitches (created_image env s fmt w h p))) = [w, w]"
    and "take 2 (planes3 (offsets (created_image env s fmt w h p))) = [0, w * h]"
    and "data_size (created_image env s fmt w h p) =
           w * h + 2 * (c_sdiv (w + 1) 2 * c_sdiv (h + 1) 2)"
  unfolding created_image_def
  by (simp_all add: CreateImage_layout_of_switch [OF assms(1) switch_nv12 [OF assms(2)]]
      planes3_def)

lemma c_sdiv_values:
  "c_sdiv (- 1) 2 = 0" "c_sdiv 3 2 = 1" "c_sdiv 5 2 = 2"
  "c_sdiv 2 2 = 1" "c_sdiv 1921 2 = 960" "c_sdiv 1081 2 = 540"
  by (simp_all add: c_sdiv_def signed_divide_int_def)

lemma ceil_half_eq: "ceil_half n = (sint n + 1) div 2"
  by (simp only: ceil_half_def half_ceiling)

lemma ceil_half_values:
  "ceil_half (- 2) = - 1" "ceil_half 2 = 1" "ceil_half 4 = 2" "ceil_half 1 = 1"
  "ceil_half 1920 = 960" "ceil_half 1080 = 540"
  by (simp_all add: ceil_half_eq)

lemma descriptor_fourcc: "fourcc (descriptor f r g b) = f"
  by (simp add: descriptor_def)

text \<open>
  C4, as stated, at the width -2 and the height 2 (any \<open>int\<close> is accepted): the pitch
  of the planes 1 and 2 is \<open>(-2 + 1) / 2 = 0\<close>, C's division truncating towards zero,
  and not the ceiling of \<open>-2 / 2\<close>, which is -1.
\<close>

theorem CreateImage_YV12_negative_width:
  "sint (- 2 :: u32) = - 2 \<and> ceil_half (- 2) = - 1 \<and>
   planes3 (pitches (created_image example_env example_state (descriptor FOURCC_YV12 0 0 0)
                       (- 2) 2 0)) = [- 2, 0, 0] \<and>
   pitches (created_image example_env example_state (descriptor FOURCC_YV12 0 0 0) (- 2) 2 0) 1
     \<noteq> word_of_int (ceil_half (- 2))"
proof -
  have p: "planes3 (pitches (created_image example_env example_state
             (descriptor FOURCC_YV12 0 0 0) (- 2) 2 0)) = [- 2, 0, 0]"
    using CreateImage_yv12_fields(2) [OF example_allocation descriptor_fourcc,
            of example_env 0 0 0 "- 2" 2 0]
    by (simp add: c_sdiv_values)
  then have "pitches (created_image example_env example_state
               (descriptor FOURCC_YV12 0 0 0) (- 2) 2 0) 1 = 0"
    by (simp add: planes3_def)
  with p show ?thesis
    by (simp add: ceil_half_values)
qed

text \<open>
  C4, amended.  For every width and height, once the slot is allocated, the layout of a
  YV12 image is: 3 planes; pitches (width, width2, width2); offsets (0, size + size2,
  size); data size size + 2 * size2; where size = width * height, width2 =
  (width + 1) / 2 and height2 = (height + 1) / 2 with C's division, size2 = width2 *
  height2, all in 32-bit arithmetic.  For a width (height) from 0 up to the largest
  \<open>int\<close> but one, width2 (height2) is the ceiling of width / 2 (height / 2); and
  when moreover size + 2 * size2 is below \<open>2^32\<close>, the values stored are these numbers
  themselves.  The layout is in the image however the call ends.
\<close>

theorem CreateImage_YV12_layout:
  assumes "object_heap_allocate (image_heap s) (fresh_object_image env) = Some (i, heap)"
    and "fourcc fmt = FOURCC_YV12"
  shows "num_planes (created_image env s fmt w h p) = 3 \<and>
         planes3 (pitches (created_image env s fmt w h p)) =
           [w, c_sdiv (w + 1) 2, c_sdiv (w + 1) 2] \<and>
         planes3 (offsets (created_image env s fmt w h p)) =
           [0, w * h + c_sdiv (w + 1) 2 * c_sdiv (h + 1) 2, w * h] \<and>
         data_size (created_image env s fmt w h p) =
           w * h + 2 * (c_sdiv (w + 1) 2 * c_sdiv (h + 1) 2) \<and>
         (0 \<le> sint w \<and> sint w < 2 ^ 31 - 1 \<longrightarrow> sint (c_sdiv (w + 1) 2) = ceil_half w) \<and>
         (0 \<le> sint h \<and> sint h < 2 ^ 31 - 1 \<longrightarrow> sint (c_sdiv (h + 1) 2) = ceil_half h) \<and>
         (0 \<le> sint w \<and> sint w < 2 ^ 31 - 1 \<and> 0 \<le> sint h \<and> sint h < 2 ^ 31 - 1 \<and>
          sint w * sint h + 2 * (ceil_half w * ceil_half h) < 2 ^ 32 \<longrightarrow>
            map uint (planes3 (pitches (created_image env s fmt w h p))) =
              [sint w, ceil_half w, ceil_half w] \<and>
            map uint (planes3 (offsets (created_image env s fmt w h p))) =
              [0, sint w * sint h + ceil_half w * ceil_half h, sint w * sint h] \<and>
            uint (data_size (created_image env s fmt w h p)) =
              sint w * sint h + 2 * (ceil_half w * ceil_half h))"
proof -
  note f = CreateImage_yv12_fields [OF assms, of w h p]
  have "map uint (planes3 (pitches (created_image env s fmt w h p))) =
          [sint w, ceil_half w, ceil_half w] \<and>
        map uint (planes3 (offsets (created_image env s fmt w h p))) =
          [0, sint w * sint h + ceil_half w * ceil_half h, sint w * sint h] \<and>
        uint (data_size (created_image env s fmt w h p)) =
          sint w * sint h + 2 * (ceil_half w * ceil_half h)"
    if "0 \<le> sint w" "sint w < 2 ^ 31 - 1" "0 \<le> sint h" "sint h < 2 ^ 31 - 1"
      "sint w * sint h + 2 * (ceil_half w * ceil_half h) < 2 ^ 32"
    using layout_exact [OF that] uint_nonneg_sint [OF that(1)] c_sdiv_ceil_half(2) [OF that(1,2)]
    by (simp add: f)
  then show ?thesis
    using f c_sdiv_ceil_half(1) [of w] c_sdiv_ceil_half(1) [of h] by blast
qed

text \<open>
  The theorem at the 4x4 image in the example state: pitches 4, 2, 2, offsets 0, 20,
  16, 24 bytes.
\<close>

theorem CreateImage_YV12_layout_witness:
  "object_heap_allocate (image_heap example_state) (fresh_object_image example_env) =
     Some (0, [Some (fresh_object_image example_env), None]) \<and>
   fourcc (descriptor FOURCC_YV12 0 0 0) = FOURCC_YV12 \<and>
   0 \<le> sint (4 :: u32) \<and> sint (4 :: u32) < 2 ^ 31 - 1 \<and>
   sint (4 :: u32) * sint (4 :: u32) + 2 * (ceil_half 4 * ceil_half 4) < 2 ^ 32 \<and>
   ceil_half 4 = 2 \<and>
   num_planes (created_image example_env example_state (descriptor FOURCC_YV12 0 0 0) 4 4 0) = 3 \<and>
   planes3 (pitches (created_image example_env example_state (descriptor FOURCC_YV12 0 0 0) 4 4 0))
     = [4, 2, 2] \<and>
   planes3 (offsets (created_image example_env example_state (descriptor FOURCC_YV12 0 0 0) 4 4 0))
     = [0, 20, 16] \<and>
   data_size (created_image example_env example_state (descriptor FOURCC_YV12 0 0 0) 4 4 0) = 24 \<and>
   map uint (planes3 (offsets
     (created_image example_env example_state (descriptor FOURCC_YV12 0 0 0) 4 4 0))) = [0, 20, 16]"
proof -
  have r: "0 \<le> sint (4 :: u32)" "sint (4 :: u32) < 2 ^ 31 - 1"
    "sint (4 :: u32) * sint (4 :: u32) + 2 * (ceil_half 4 * ceil_half 4) < 2 ^ 32"
    by (simp_all add: ceil_half_values)
  note inst = CreateImage_YV12_layout [OF example_allocation descriptor_fourcc,
                of example_env 0 0 0 4 4 0]
  have 1: "num_planes (created_image example_env example_state
             (descriptor FOURCC_YV12 0 0 0) 4 4 0) = 3"
    using inst by simp
  have 2: "planes3 (pitches (created_image example_env example_state
             (descriptor FOURCC_YV12 0 0 0) 4 4 0)) = [4, 2, 2]"
    using inst [THEN conjunct2, THEN conjunct1] by (simp add: c_sdiv_values)
  have 3: "planes3 (offsets (created_image example_env example_state
             (descriptor FOURCC_YV12 0 0 0) 4 4 0)) = [0, 20, 16]"
    using inst [THEN conjunct2, THEN conjunct2, THEN conjunct1] by (simp add: c_sdiv_values)
  have 4: "data_size (created_image example_env example_state
             (descriptor FOURCC_YV12 0 0 0) 4 4 0) = 24"
    using inst [THEN conjunct2, THEN conjunct2, THEN conjunct2, THEN conjunct1]
    by (simp add: c_sdiv_values)
  have 5: "map uint (planes3 (offsets (created_image example_env example_state
             (descriptor FOURCC_YV12 0 0 0) 4 4 0))) = [0, 20, 16]"
    using inst [THEN conjunct2, THEN conjunct2, THEN conjunct2, THEN conjunct2, THEN conjunct2,
                THEN conjunct2, THEN mp] r
    by (simp add: ceil_half_values)
  show ?thesis
    using example_allocation [of example_env] r 1 2 3 4 5
    by (simp add: descriptor_fourcc ceil_half_values)
qed

text \<open>
  C5, as stated, at the width -2 and the height 2: size is -4 and size2 is
  \<open>0 * 1 = 0\<close>, so that the data size is -4 (as an unsigned number), whereas with the
  ceilings -1 and 1 the formula of the claim gives -6.
\<close>

theorem CreateImage_NV12_negative_width:
  "sint (- 2 :: u32) = - 2 \<and> sint (2 :: u32) = 2 \<and> ceil_half (- 2) = - 1 \<and> ceil_half 2 = 1 \<and>
   data_size (created_image example_env example_state (descriptor FOURCC_NV12 0 0 0) (- 2) 2 0)
     = - 4 \<and>
   data_size (created_image example_env example_state (descriptor FOURCC_NV12 0 0 0) (- 2) 2 0)
     \<noteq> word_of_int (sint (- 2 :: u32) * sint (2 :: u32) + 2 * (ceil_half (- 2) * ceil_half 2))"
proof -
  have "data_size (created_image example_env example_state
          (descriptor FOURCC_NV12 0 0 0) (- 2) 2 0) = - 4"
    using CreateImage_nv12_fields(4) [OF example_allocation descriptor_fourcc,
            of example_env 0 0 0 "- 2" 2 0]
    by (simp add: c_sdiv_values)
  then show ?thesis
    by (simp add: ceil_half_values)
qed

text \<open>
  C5, amended.  For every width and height, once the slot is allocated, the layout of
  an NV12 image is: 2 planes; pitches (width, width); offsets (0, size); data size
  size + 2 * size2; where size = width * height and size2 = ((width + 1) / 2) *
  ((height + 1) / 2) with C's division, all in 32-bit arithmetic.  For a width and a
  height from 0 up to the largest \<open>int\<close> but one the two halves are the ceilings
  of width / 2 and height / 2; and when moreover size + 2 * size2 is below \<open>2^32\<close>,
  the values stored are these numbers themselves.
\<close>

theorem CreateImage_NV12_layout:
  assumes "object_heap_allocate (image_heap s) (fresh_object_image env) = Some (i, heap)"
    and "fourcc fmt = FOURCC_NV12"
  shows "num_planes (created_image env s fmt w h p) = 2 \<and>
         take 2 (planes3 (pitches (created_image env s fmt w h p))) = [w, w] \<and>
         take 2 (planes3 (offsets (created_image env s fmt w h p))) = [0, w * h] \<and>
         data_size (created_image env s fmt w h p) =
           w * h + 2 * (c_sdiv (w + 1) 2 * c_sdiv (h + 1) 2) \<and>
         (0 \<le> sint w \<and> sint w < 2 ^ 31 - 1 \<longrightarrow> sint (c_sdiv (w + 1) 2) = ceil_half w) \<and>
         (0 \<le> sint h \<and> sint h < 2 ^ 31 - 1 \<longrightarrow> sint (c_sdiv (h + 1) 2) = ceil_half h) \<and>
         (0 \<le> sint w \<and> sint w < 2 ^ 31 - 1 \<and> 0 \<le> sint h \<and> sint h < 2 ^ 31 - 1 \<and>
          sint w * sint h + 2 * (ceil_half w * ceil_half h) < 2 ^ 32 \<longrightarrow>
            map uint (take 2 (planes3 (pitches (created_image env s fmt w h p)))) =
              [sint w, sint w] \<and>
            map uint (take 2 (planes3 (offsets (created_image env s fmt w h p)))) =
              [0, sint w * sint h] \<and>
            uint (data_size (created_image env s fmt w h p)) =
              sint w * sint h + 2 * (ceil_half w * ceil_half h))"
proof -
  note f = CreateImage_nv12_fields [OF assms, of w h p]
  have "map uint (take 2 (planes3 (pitches (created_image env s fmt w h p)))) =
          [sint w, sint w] \<and>
        map uint (take 2 (planes3 (offsets (created_image env s fmt w h p)))) =
          [0, sint w * sint h] \<and>
        uint (data_size (created_image env s fmt w h p)) =
          sint w * sint h + 2 * (ceil_half w * ceil_half h)"
    if "0 \<le> sint w" "sint w < 2 ^ 31 - 1" "0 \<le> sint h" "sint h < 2 ^ 31 - 1"
      "sint w * sint h + 2 * (ceil_half w * ceil_half h) < 2 ^ 32"
    using layout_exact [OF that] uint_nonneg_sint [OF that(1)]
    by (simp add: f)
  then show ?thesis
    using f c_sdiv_ceil_half(1) [of w] c_sdiv_ceil_half(1) [of h] by blast
qed

text \<open>
  The theorem at the 1920x1080 image in the example state: 3110400 bytes, the second
  plane at 2073600.
\<close>

theorem CreateImage_NV12_layout_witness:
  "object_heap_allocate (image_heap example_state) (fresh_object_image example_env) =
     Some (0, [Some (fresh_object_image example_env), None]) \<and>
   fourcc (descriptor FOURCC_NV12 0 0 0) = FOURCC_NV12 \<and>
   0 \<le> sint (1920 :: u32) \<and> sint (1920 :: u32) < 2 ^ 31 - 1 \<and>
   0 \<le> sint (1080 :: u32) \<and> sint (1080 :: u32) < 2 ^ 31 - 1 \<and>
   sint (1920 :: u32) * sint (1080 :: u32) + 2 * (ceil_half 1920 * ceil_half 1080) < 2 ^ 32 \<and>
   ceil_half 1920 = 960 \<and> ceil_half 1080 = 540 \<and>
   num_planes (created_image example_env example_state (descriptor FOURCC_NV12 0 0 0) 1920 1080 0)
     = 2 \<and>
   take 2 (planes3 (pitches
     (created_image example_env example_state (descriptor FOURCC_NV12 0 0 0) 1920 1080 0)))
     = [1920, 1920] \<and>
   take 2 (planes3 (offsets
     (created_image example_env example_state (descriptor FOURCC_NV12 0 0 0) 1920 1080 0)))
     = [0, 2073600] \<and>
   data_size (created_image example_env example_state (descriptor FOURCC_NV12 0 0 0) 1920 1080 0)
     = 3110400 \<and>
   uint (data_size
     (created_image example_env example_state (descriptor FOURCC_NV12 0 0 0) 1920 1080 0))
     = 3110400"
proof -
  have r: "0 \<le> sint (1920 :: u32)" "sint (1920 :: u32) < 2 ^ 31 - 1"
    "0 \<le> sint (1080 :: u32)" "sint (1080 :: u32) < 2 ^ 31 - 1"
    "sint (1920 :: u32) * sint (1080 :: u32) + 2 * (ceil_half 1920 * ceil_half 1080) < 2 ^ 32"
    by (simp_all add: ceil_half_values)
  note inst = CreateImage_NV12_layout [OF example_allocation descriptor_fourcc,
                of example_env 0 0 0 1920 1080 0]
  have 1: "num_planes (created_image example_env example_state
             (descriptor FOURCC_NV12 0 0 0) 1920 1080 0) = 2"
    using inst by simp
  have 2: "take 2 (planes3 (pitches (created_image example_env example_state
             (descriptor FOURCC_NV12 0 0 0) 1920 1080 0))) = [1920, 1920]"
    using inst [THEN conjunct2, THEN conjunct1] .
  have 3: "take 2 (planes3 (offsets (created_image example_env example_state
             (descriptor FOURCC_NV12 0 0 0) 1920 1080 0))) = [0, 2073600]"
    using inst [THEN conjunct2, THEN conjunct2, THEN conjunct1] by simp
  have 4: "data_size (created_image example_env example_state
             (descriptor FOURCC_NV12 0 0 0) 1920 1080 0) = 3110400"
    using inst [THEN conjunct2, THEN conjunct2, THEN conjunct2, THEN conjunct1]
    by (simp add: c_sdiv_values)
  have 5: "uint (data_size (created_image example_env example_state
             (descriptor FOURCC_NV12 0 0 0) 1920 1080 0)) = 3110400"
    using inst [THEN conjunct2, THEN conjunct2, THEN conjunct2, THEN conjunct2, THEN conjunct2,
                THEN conjunct2, THEN mp] r
    by (simp add: ceil_half_values)
  show ?thesis
    using example_allocation [of example_env] r 1 2 3 4 5
    by (simp add: descriptor_fourcc ceil_half_values)
qed

lemma CreateImage_packed_fields:
  assumes alloc: "object_heap_allocate (image_heap s) (fresh_object_image env) = Some (i, heap)"
    and packed: "fourcc fmt = FOURCC_UYVY \<or> fourcc fmt = FOURCC_YUYV \<or>
       fourcc fmt = FOURCC_RGBA \<and> get_VdpRGBAFormat (WORDS_BIGENDIAN env) fmt \<noteq> NOT_FOUND \<and>
       fst (vdpau env (OutputSurfaceCreate (vdp_device s)
              (get_VdpRGBAFormat (WORDS_BIGENDIAN env) fmt) w h)) = VDP_STATUS_OK"
  shows "num_planes (created_image env s fmt w h p) = 1"
    and "pitches (created_image env s fmt w h p) 0 = w * 4"
    and "offsets (created_image env s fmt w h p) 0 = 0"
    and "data_size (created_image env s fmt w h p) = w * 4 * h"
proof -
  have dev: "vdp_device (CreateImage_allocated s p i) = vdp_device s"
    by (simp add: CreateImage_allocated_def)
  have "\<exists>s2. CreateImage_switch env (CreateImage_allocated s p i) fmt w h p i =
               Inr (upd_image s2 p (packed_layout w h))"
  proof (cases "fourcc fmt = FOURCC_RGBA")
    case True
    with packed have "get_VdpRGBAFormat (WORDS_BIGENDIAN env) fmt \<noteq> NOT_FOUND"
      "fst (vdpau env (OutputSurfaceCreate (vdp_device (CreateImage_allocated s p i))
              (get_VdpRGBAFormat (WORDS_BIGENDIAN env) fmt) w h)) = VDP_STATUS_OK"
      by (auto simp add: fourcc_defs dev)
    from switch_rgba [OF True this] show ?thesis by blast
  next
    case False
    with packed have "fourcc fmt = FOURCC_UYVY \<or> fourcc fmt = FOURCC_YUYV" by blast
    from switch_packed_yuv [OF this] show ?thesis by blast
  qed
  then obtain s2 where sw: "CreateImage_switch env (CreateImage_allocated s p i) fmt w h p i =
                              Inr (upd_image s2 p (packed_layout w h))" ..
  note f = CreateImage_layout_of_switch [OF alloc sw]
  show "num_planes (created_image env s fmt w h p) = 1"
    and "pitches (created_image env s fmt w h p) 0 = w * 4"
    and "offsets (created_image env s fmt w h p) 0 = 0"
    and "data_size (created_image env s fmt w h p) = w * 4 * h"
    unfolding created_image_def by (simp_all add: f packed_layout_fields)
qed

lemma CreateImage_unsupported:
  assumes alloc: "object_heap_allocate (image_heap s) (fresh_object_image env) = Some (i, heap)"
    and "fourcc fmt \<notin> {FOURCC_NV12, FOURCC_YV12, FOURCC_RGBA, FOURCC_UYVY, FOURCC_YUYV}"
  shows "fst (vdpau_CreateImage env s (Some fmt) w h (Some p)) = VA_STATUS_ERROR_OPERATION_FAILED"
    and "image_heap (snd (vdpau_CreateImage env s (Some fmt) w h (Some p))) = image_heap s"
    and "created_image env s fmt w h p = (va_images s p)\<lparr>buf := 0, image_id := i\<rparr>"
proof -
  have sw: "CreateImage_switch env (CreateImage_allocated s p i) fmt w h p i =
              Inl (CreateImage_allocated s p i)"
    using assms(2) by (simp add: CreateImage_switch_def Let_def)
  show st: "fst (vdpau_CreateImage env s (Some fmt) w h (Some p)) =
              VA_STATUS_ERROR_OPERATION_FAILED"
    by (simp add: CreateImage_status [OF alloc] sw)
  then show "image_heap (snd (vdpau_CreateImage env s (Some fmt) w h (Some p))) = image_heap s"
    by (simp add: CreateImage_failure(1) [OF alloc])
  show "created_image env s fmt w h p = (va_images s p)\<lparr>buf := 0, image_id := i\<rparr>"
    by (simp add: created_image_def CreateImage_after_allocation [OF alloc] sw
        CreateImage_error_def DestroyImage_va_images)
       (simp add: CreateImage_allocated_def)
qed

lemma packed_exact:
  fixes w h :: u32
  assumes "0 \<le> sint w" "0 \<le> sint h" "4 * sint w < 2 ^ 32" "4 * sint w * sint h < 2 ^ 32"
  shows "uint (w * 4) = 4 * sint w" and "uint (w * 4 * h) = 4 * sint w * sint h"
proof -
  note u = uint_nonneg_sint [OF assms(1)] uint_nonneg_sint [OF assms(2)]
  have len: "(2 :: int) ^ LENGTH(32) = 2 ^ 32" by simp
  have four: "uint (4 :: u32) = 4" by simp
  have "uint w * uint (4 :: u32) < 2 ^ LENGTH(32)"
    using assms(3) unfolding len four u by linarith
  then show p: "uint (w * 4) = 4 * sint w"
    by (simp only: uint_mult_lem) (simp add: u)
  have "uint (w * 4) * uint h < 2 ^ LENGTH(32)"
    using assms(4) unfolding len p u by linarith
  then show "uint (w * 4 * h) = 4 * sint w * sint h"
    by (simp only: uint_mult_lem) (simp add: u p)
qed

text \<open>
  C9, as stated, at two UYVY images in the example state, both created with success.
  At the width \<open>2^15\<close> and the height \<open>2^15\<close> the pitch is \<open>2^17\<close> and the data size
  \<open>pitch * height\<close> is \<open>2^32\<close>, which the 32-bit field stores as 0.  At the width
  \<open>2^30\<close> and the height 1 the pitch \<open>width * 4\<close> is \<open>2^32\<close> and is stored as 0, and
  so is the data size.
\<close>

theorem CreateImage_packed_overflow:
  "fst (vdpau_CreateImage example_env example_state (Some (descriptor FOURCC_UYVY 0 0 0))
          0x8000 0x8000 (Some 0)) = VA_STATUS_SUCCESS \<and>
   sint (0x8000 :: u32) = 2 ^ 15 \<and>
   pitches (created_image example_env example_state (descriptor FOURCC_UYVY 0 0 0)
              0x8000 0x8000 0) 0 = 0x20000 \<and>
   data_size (created_image example_env example_state (descriptor FOURCC_UYVY 0 0 0)
                0x8000 0x8000 0) = 0 \<and>
   uint (data_size (created_image example_env example_state (descriptor FOURCC_UYVY 0 0 0)
                      0x8000 0x8000 0))
     \<noteq> uint (pitches (created_image example_env example_state (descriptor FOURCC_UYVY 0 0 0)
                        0x8000 0x8000 0) 0) * sint (0x8000 :: u32) \<and>
   fst (vdpau_CreateImage example_env example_state (Some (descriptor FOURCC_UYVY 0 0 0))
          0x40000000 1 (Some 0)) = VA_STATUS_SUCCESS \<and>
   sint (0x40000000 :: u32) = 2 ^ 30 \<and>
   pitches (created_image example_env example_state (descriptor FOURCC_UYVY 0 0 0)
              0x40000000 1 0) 0 = 0 \<and>
   data_size (created_image example_env example_state (descriptor FOURCC_UYVY 0 0 0)
                0x40000000 1 0) = 0 \<and>
   uint (pitches (created_image example_env example_state (descriptor FOURCC_UYVY 0 0 0)
                    0x40000000 1 0) 0)
     \<noteq> sint (0x40000000 :: u32) * 4"
proof -
  let ?uyvy = "descriptor FOURCC_UYVY 0 0 0"
  have f: "fourcc ?uyvy = FOURCC_UYVY \<or> fourcc ?uyvy = FOURCC_YUYV \<or>
           fourcc ?uyvy = FOURCC_RGBA \<and>
           get_VdpRGBAFormat (WORDS_BIGENDIAN example_env) ?uyvy \<noteq> NOT_FOUND \<and>
           fst (vdpau example_env (OutputSurfaceCreate (vdp_device example_state)
                  (get_VdpRGBAFormat (WORDS_BIGENDIAN example_env) ?uyvy) w h)) = VDP_STATUS_OK"
    for w h
    by (simp add: descriptor_fourcc)
  have ok: "fst (vdpau_CreateImage example_env example_state (Some ?uyvy) w h (Some 0))
              = VA_STATUS_SUCCESS" for w h
    by (simp add: CreateImage_failure_status [OF example_allocation] descriptor_fourcc
        example_env_fields fourcc_defs)
  note a = CreateImage_packed_fields [OF example_allocation f, of "0x8000" "0x8000" 0]
  note b = CreateImage_packed_fields [OF example_allocation f, of "0x40000000" 1 0]
  show ?thesis
    by (simp add: ok a b)
qed

text \<open>
  C9, amended.  For every width and height, once the slot is allocated, the layout of
  an image of fourcc UYVY or YUYV, and of an RGBA image whose descriptor is in the
  table and whose companion surface is created, is: 1 plane; pitch width * 4 (also for
  the two 16-bit formats); offset 0; data size pitch * height, all in 32-bit
  arithmetic.  For a width and a height from 0 up with 4 * width and
  4 * width * height below \<open>2^32\<close> the values stored are these numbers themselves.
  A fourcc other than NV12, YV12, RGBA, UYVY and YUYV is rejected: the call fails with
  \<open>VA_STATUS_ERROR_OPERATION_FAILED\<close>, no layout is written to the image and the slot
  is released.
\<close>

theorem CreateImage_packed_layout:
  assumes "object_heap_allocate (image_heap s) (fresh_object_image env) = Some (i, heap)"
  shows "(fourcc fmt = FOURCC_UYVY \<or> fourcc fmt = FOURCC_YUYV \<or>
          fourcc fmt = FOURCC_RGBA \<and> get_VdpRGBAFormat (WORDS_BIGENDIAN env) fmt \<noteq> NOT_FOUND \<and>
          fst (vdpau env (OutputSurfaceCreate (vdp_device s)
                 (get_VdpRGBAFormat (WORDS_BIGENDIAN env) fmt) w h)) = VDP_STATUS_OK \<longrightarrow>
            num_planes (created_image env s fmt w h p) = 1 \<and>
            pitches (created_image env s fmt w h p) 0 = w * 4 \<and>
            offsets (created_image env s fmt w h p) 0 = 0 \<and>
            data_size (created_image env s fmt w h p) =
              pitches (created_image env s fmt w h p) 0 * h \<and>
            (0 \<le> sint w \<and> 0 \<le> sint h \<and> 4 * sint w < 2 ^ 32 \<and> 4 * sint w * sint h < 2 ^ 32 \<longrightarrow>
               uint (pitches (created_image env s fmt w h p) 0) = 4 * sint w \<and>
               uint (data_size (created_image env s fmt w h p)) = 4 * sint w * sint h)) \<and>
         (fourcc fmt \<notin> {FOURCC_NV12, FOURCC_YV12, FOURCC_RGBA, FOURCC_UYVY, FOURCC_YUYV} \<longrightarrow>
            fst (vdpau_CreateImage env s (Some fmt) w h (Some p)) =
              VA_STATUS_ERROR_OPERATION_FAILED \<and>
            created_image env s fmt w h p = (va_images s p)\<lparr>buf := 0, image_id := i\<rparr> \<and>
            image_heap (snd (vdpau_CreateImage env s (Some fmt) w h (Some p))) = image_heap s)"
proof -
  have "num_planes (created_image env s fmt w h p) = 1 \<and>
        pitches (created_image env s fmt w h p) 0 = w * 4 \<and>
        offsets (created_image env s fmt w h p) 0 = 0 \<and>
        data_size (created_image env s fmt w h p) =
          pitches (created_image env s fmt w h p) 0 * h \<and>
        (0 \<le> sint w \<and> 0 \<le> sint h \<and> 4 * sint w < 2 ^ 32 \<and> 4 * sint w * sint h < 2 ^ 32 \<longrightarrow>
           uint (pitches (created_image env s fmt w h p) 0) = 4 * sint w \<and>
           uint (data_size (created_image env s fmt w h p)) = 4 * sint w * sint h)"
    if "fourcc fmt = FOURCC_UYVY \<or> fourcc fmt = FOURCC_YUYV \<or>
        fourcc fmt = FOURCC_RGBA \<and> get_VdpRGBAFormat (WORDS_BIGENDIAN env) fmt \<noteq> NOT_FOUND \<and>
        fst (vdpau env (OutputSurfaceCreate (vdp_device s)
               (get_VdpRGBAFormat (WORDS_BIGENDIAN env) fmt) w h)) = VDP_STATUS_OK"
    using CreateImage_packed_fields [OF assms that, of p] packed_exact [of w h]
    by simp
  moreover have "fst (vdpau_CreateImage env s (Some fmt) w h (Some p)) =
                   VA_STATUS_ERROR_OPERATION_FAILED \<and>
                 created_image env s fmt w h p = (va_images s p)\<lparr>buf := 0, image_id := i\<rparr> \<and>
                 image_heap (snd (vdpau_CreateImage env s (Some fmt) w h (Some p))) = image_heap s"
    if "fourcc fmt \<notin> {FOURCC_NV12, FOURCC_YV12, FOURCC_RGBA, FOURCC_UYVY, FOURCC_YUYV}"
    using CreateImage_unsupported [OF assms that, of w h p] by simp
  ultimately show ?thesis by blast
qed

text \<open>
  The theorem at the 2x1 UYVY image (pitch 8, 8 bytes), at the 2x1 image of the row
  R8G8B8A8 (the same), and at the fourcc AYUV, which is in the table and not in the
  switch.
\<close>

theorem CreateImage_packed_layout_witness:
  "object_heap_allocate (image_heap example_state) (fresh_object_image example_env) =
     Some (0, [Some (fresh_object_image example_env), None]) \<and>
   fourcc (descriptor FOURCC_UYVY 0 0 0) = FOURCC_UYVY \<and>
   0 \<le> sint (2 :: u32) \<and> 0 \<le> sint (1 :: u32) \<and> 4 * sint (2 :: u32) < 2 ^ 32 \<and>
   4 * sint (2 :: u32) * sint (1 :: u32) < 2 ^ 32 \<and>
   num_planes (created_image example_env example_state (descriptor FOURCC_UYVY 0 0 0) 2 1 0) = 1 \<and>
   pitches (created_image example_env example_state (descriptor FOURCC_UYVY 0 0 0) 2 1 0) 0 = 8 \<and>
   offsets (created_image example_env example_state (descriptor FOURCC_UYVY 0 0 0) 2 1 0) 0 = 0 \<and>
   data_size (created_image example_env example_state (descriptor FOURCC_UYVY 0 0 0) 2 1 0) = 8 \<and>
   uint (data_size (created_image example_env example_state (descriptor FOURCC_UYVY 0 0 0) 2 1 0))
     = 8 \<and>
   get_VdpRGBAFormat (WORDS_BIGENDIAN example_env) (descriptor FOURCC_RGBA 0xff 0xff00 0xff0000)
     \<noteq> NOT_FOUND \<and>
   pitches (created_image example_env example_state
              (descriptor FOURCC_RGBA 0xff 0xff00 0xff0000) 2 1 0) 0 = 8 \<and>
   data_size (created_image example_env example_state
                (descriptor FOURCC_RGBA 0xff 0xff00 0xff0000) 2 1 0) = 8 \<and>
   fourcc (descriptor FOURCC_AYUV 0 0 0)
     \<notin> {FOURCC_NV12, FOURCC_YV12, FOURCC_RGBA, FOURCC_UYVY, FOURCC_YUYV} \<and>
   fst (vdpau_CreateImage example_env example_state (Some (descriptor FOURCC_AYUV 0 0 0)) 2 1 (Some 0))
     = VA_STATUS_ERROR_OPERATION_FAILED \<and>
   num_planes (created_image example_env example_state (descriptor FOURCC_AYUV 0 0 0) 2 1 0) = 0 \<and>
   image_heap (snd (vdpau_CreateImage example_env example_state
                      (Some (descriptor FOURCC_AYUV 0 0 0)) 2 1 (Some 0))) = [None, None]"
proof -
  let ?uyvy = "descriptor FOURCC_UYVY 0 0 0"
  let ?rgba = "descriptor FOURCC_RGBA 0xff 0xff00 0xff0000"
  let ?ayuv = "descriptor FOURCC_AYUV 0 0 0"
  have r: "0 \<le> sint (2 :: u32)" "0 \<le> sint (1 :: u32)" "4 * sint (2 :: u32) < 2 ^ 32"
    "4 * sint (2 :: u32) * sint (1 :: u32) < 2 ^ 32"
    by simp_all
  have f: "fourcc ?ayuv \<notin> {FOURCC_NV12, FOURCC_YV12, FOURCC_RGBA, FOURCC_UYVY, FOURCC_YUYV}"
    by (simp add: descriptor_def fourcc_defs)
  have l: "get_VdpRGBAFormat (WORDS_BIGENDIAN example_env) ?rgba = VDP_RGBA_FORMAT_R8G8B8A8"
    "VDP_RGBA_FORMAT_R8G8B8A8 \<noteq> NOT_FOUND"
    by (simp_all add: RGBA_lookup_eq example_env_fields descriptor_def fourcc_defs
        VA_LSB_FIRST_def vdp_format_defs NOT_FOUND_def)
  have ok: "fourcc ?rgba = FOURCC_RGBA \<and>
            get_VdpRGBAFormat (WORDS_BIGENDIAN example_env) ?rgba \<noteq> NOT_FOUND \<and>
            fst (vdpau example_env (OutputSurfaceCreate (vdp_device example_state)
                   (get_VdpRGBAFormat (WORDS_BIGENDIAN example_env) ?rgba) 2 1)) = VDP_STATUS_OK"
    using l by (simp add: descriptor_fourcc example_env_fields)
  note u = CreateImage_packed_layout [OF example_allocation,
             where env = example_env and fmt = ?uyvy and w = 2 and h = 1 and p = 0,
             THEN conjunct1, THEN mp, OF disjI1, OF descriptor_fourcc]
  note g = CreateImage_packed_layout [OF example_allocation,
             where env = example_env and fmt = ?rgba and w = 2 and h = 1 and p = 0,
             THEN conjunct1, THEN mp, OF disjI2, OF disjI2, OF ok]
  note a = CreateImage_packed_layout [OF example_allocation,
             where env = example_env and fmt = ?ayuv and w = 2 and h = 1 and p = 0,
             THEN conjunct2, THEN mp, OF f]
  have im: "num_planes (va_images example_state 0) = 0"
    by (simp add: example_state_def example_image_def)
  show ?thesis
    using example_allocation [of example_env] r f l u g a
    by (simp add: descriptor_fourcc example_state_fields im)
qed

end
